theory Spec2Isabelle
  imports Main "HOL-Library.Word"
begin

section \<open>Values, errors and contexts\<close>

type_synonym int64 = "64 word"

text \<open>
  Go error values. \<open>ErrSkip\<close> is \<open>driver.ErrSkip\<close>, \<open>ErrorsNew msg\<close> is
  \<open>errors.New(msg)\<close>, \<open>Canceled\<close> and \<open>DeadlineExceeded\<close> are the two values
  \<open>ctx.Err()\<close> can return, \<open>DriverError msg\<close> is any error made by the wrapped driver.
\<close>

datatype error = ErrSkip | ErrorsNew string | Canceled | DeadlineExceeded | DriverError string

text \<open>
  \<open>driver.Value\<close>: nil, int64, float64 (kept as its bit pattern), bool, []byte, string,
  time.Time (kept as an instant). The adapter only copies these values.
\<close>

datatype dvalue = VNil | VInt64 int64 | VFloat64 int64 | VBool bool | VBytes "8 word list"
  | VString string | VTime int

record named_value =
  nv_Name :: string
  nv_Ordinal :: int
  nv_Value :: dvalue

record tx_options =
  Isolation :: int
  ReadOnly :: bool

text \<open>
  A \<open>context.Context\<close> as far as the adapter looks at it: \<open>ctx_err\<close> is what
  \<open>ctx.Err()\<close> returns (the channel \<open>ctx.Done()\<close> is closed exactly when it is not nil),
  \<open>ctx_span\<close> is the span the context carries. A nil context is \<open>None :: context option\<close>.
\<close>

record "context" =
  ctx_err :: "error option"
  ctx_span :: "nat option"

section \<open>The wrapped (native) driver\<close>

text \<open>
  The native driver is an external collaborator. Each native object is the table of its
  methods; every method runs on the data store \<open>'db\<close> and returns its result with the new
  store. An optional interface of \<open>database/sql/driver\<close> (the target of a type assertion
  in the source) is an \<open>option\<close> field: \<open>None\<close> when the object does not implement it.
\<close>

record 'db driver_Result =
  res_LastInsertId :: "'db \<Rightarrow> (int64 \<times> error option) \<times> 'db"
  res_RowsAffected :: "'db \<Rightarrow> (int64 \<times> error option) \<times> 'db"

record 'db driver_Rows =
  rows_Columns :: "'db \<Rightarrow> string list \<times> 'db"
  rows_Close :: "'db \<Rightarrow> error option \<times> 'db"
  rows_Next :: "dvalue list \<Rightarrow> 'db \<Rightarrow> (dvalue list \<times> error option) \<times> 'db"

record 'db driver_Stmt =
  stmt_Close :: "'db \<Rightarrow> error option \<times> 'db"
  stmt_NumInput :: "'db \<Rightarrow> int \<times> 'db"
  stmt_Exec :: "dvalue list \<Rightarrow> 'db \<Rightarrow> (error + 'db driver_Result) \<times> 'db"
  stmt_Query :: "dvalue list \<Rightarrow> 'db \<Rightarrow> (error + 'db driver_Rows) \<times> 'db"
  stmt_ExecContext ::
    "(context \<Rightarrow> named_value list \<Rightarrow> 'db \<Rightarrow> (error + 'db driver_Result) \<times> 'db) option"
  stmt_QueryContext ::
    "(context \<Rightarrow> named_value list \<Rightarrow> 'db \<Rightarrow> (error + 'db driver_Rows) \<times> 'db) option"

record 'db driver_Tx =
  tx_Commit :: "'db \<Rightarrow> error option \<times> 'db"
  tx_Rollback :: "'db \<Rightarrow> error option \<times> 'db"

record 'db driver_Conn =
  conn_Prepare :: "string \<Rightarrow> 'db \<Rightarrow> (error + 'db driver_Stmt) \<times> 'db"
  conn_Close :: "'db \<Rightarrow> error option \<times> 'db"
  conn_Begin :: "'db \<Rightarrow> (error + 'db driver_Tx) \<times> 'db"
  conn_BeginTx :: "(context \<Rightarrow> tx_options \<Rightarrow> 'db \<Rightarrow> (error + 'db driver_Tx) \<times> 'db) option"
  conn_PrepareContext :: "(context \<Rightarrow> string \<Rightarrow> 'db \<Rightarrow> (error + 'db driver_Stmt) \<times> 'db) option"
  conn_Exec :: "(string \<Rightarrow> dvalue list \<Rightarrow> 'db \<Rightarrow> (error + 'db driver_Result) \<times> 'db) option"
  conn_ExecContext ::
    "(context \<Rightarrow> string \<Rightarrow> named_value list \<Rightarrow> 'db \<Rightarrow> (error + 'db driver_Result) \<times> 'db) option"
  conn_Ping :: "(context \<Rightarrow> 'db \<Rightarrow> error option \<times> 'db) option"
  conn_Query :: "(string \<Rightarrow> dvalue list \<Rightarrow> 'db \<Rightarrow> (error + 'db driver_Rows) \<times> 'db) option"
  conn_QueryContext ::
    "(context \<Rightarrow> string \<Rightarrow> named_value list \<Rightarrow> 'db \<Rightarrow> (error + 'db driver_Rows) \<times> 'db) option"

record 'db driver_Driver =
  drv_Open :: "string \<Rightarrow> 'db \<Rightarrow> (error + 'db driver_Conn) \<times> 'db"

section \<open>The observable world: data store and recorded events\<close>

datatype tracer = Tracer string

datatype attr_value = AString string | APrettyNamed "named_value list"
  | APrettyValues "dvalue list"

datatype native_op =
    N_Open string
  | N_Conn_Prepare string
  | N_Conn_Close
  | N_Conn_Begin
  | N_Conn_BeginTx "context" tx_options
  | N_Conn_PrepareContext "context" string
  | N_Conn_Exec string "dvalue list"
  | N_Conn_ExecContext "context" string "named_value list"
  | N_Conn_Ping "context"
  | N_Conn_Query string "dvalue list"
  | N_Conn_QueryContext "context" string "named_value list"
  | N_Tx_Commit
  | N_Tx_Rollback
  | N_Stmt_Close
  | N_Stmt_NumInput
  | N_Stmt_Exec "dvalue list"
  | N_Stmt_Query "dvalue list"
  | N_Stmt_ExecContext "context" "named_value list"
  | N_Stmt_QueryContext "context" "named_value list"
  | N_Res_LastInsertId
  | N_Res_RowsAffected
  | N_Rows_Columns
  | N_Rows_Close
  | N_Rows_Next "dvalue list"

text \<open>
  What a spy tracer and a spy driver record, in the order it happens: a span started (by
  which tracer, its number, the context it was started from, its name), an attribute set
  on a span, an error recorded on a span, a span ended, and a call of a native method
  with its arguments and the error it returned.
\<close>

datatype event =
    SpanStart tracer nat "context option" string
  | SetAttribute nat string attr_value
  | RecordError nat "context" error
  | SpanEnd nat
  | Native native_op "error option"

record 'db world =
  store :: 'db
  events :: "event list"
  next_span :: nat

definition sum_err :: "error + 'a \<Rightarrow> error option" where
  "sum_err r = (case r of Inl e \<Rightarrow> Some e | Inr _ \<Rightarrow> None)"

definition no_err :: "'a \<Rightarrow> error option" where
  "no_err r = None"

text \<open>A call of a native method: it runs on the store, and the spy records it.\<close>

definition native_call ::
  "native_op \<Rightarrow> ('r \<Rightarrow> error option) \<Rightarrow> ('db \<Rightarrow> 'r \<times> 'db) \<Rightarrow> 'db world \<Rightarrow> 'r \<times> 'db world" where
  "native_call opn errf f w =
     (case f (store w) of
        (r, s) \<Rightarrow> (r, w\<lparr>store := s, events := events w @ [Native opn (errf r)]\<rparr>))"

subsection \<open>The tracer\<close>

text \<open>
  A call either returns or panics. The one panic that is modelled is that of
  \<open>tracer.Start\<close> on a nil context; nothing in the source recovers from it, so it
  ends every call on its way up.
\<close>

datatype 'a outcome = Returns 'a | Panics

definition returns :: "'r \<times> 'db world \<Rightarrow> 'r outcome \<times> 'db world" where
  "returns rw = (Returns (fst rw), snd rw)"

text \<open>
  The tracer (\<open>go.opentelemetry.io/otel/api/trace\<close>) is an external collaborator; it is
  taken as a spy. \<open>tracer.Start(ctx, name)\<close> numbers the new span, records from which
  context it was started and returns that context carrying the new span; the cancellation
  state of the context is kept. Started from a nil context it panics, as the tracers of
  that package do (\<open>context.WithValue\<close> refuses a nil parent), before anything is
  recorded.
\<close>

definition tracer_Start ::
  "tracer \<Rightarrow> context option \<Rightarrow> string \<Rightarrow> 'db world
   \<Rightarrow> (context \<times> nat) outcome \<times> 'db world" where
  "tracer_Start t ctx name w =
     (case ctx of
        None \<Rightarrow> (Panics, w)
      | Some c \<Rightarrow>
          (let span = next_span w
           in (Returns (c\<lparr>ctx_span := Some span\<rparr>, span),
               w\<lparr>events := events w @ [SpanStart t span ctx name], next_span := Suc span\<rparr>)))"

definition span_SetAttribute :: "nat \<Rightarrow> string \<Rightarrow> attr_value \<Rightarrow> 'db world \<Rightarrow> 'db world" where
  "span_SetAttribute span k v w = w\<lparr>events := events w @ [SetAttribute span k v]\<rparr>"

fun span_SetAttributes :: "nat \<Rightarrow> (string \<times> attr_value) list \<Rightarrow> 'db world \<Rightarrow> 'db world" where
  "span_SetAttributes span [] w = w"
| "span_SetAttributes span ((k, v) # kvs) w =
     span_SetAttributes span kvs (span_SetAttribute span k v w)"

definition span_RecordError :: "nat \<Rightarrow> context \<Rightarrow> error \<Rightarrow> 'db world \<Rightarrow> 'db world" where
  "span_RecordError span ctx e w = w\<lparr>events := events w @ [RecordError span ctx e]\<rparr>"

definition span_End :: "nat \<Rightarrow> 'db world \<Rightarrow> 'db world" where
  "span_End span w = w\<lparr>events := events w @ [SpanEnd span]\<rparr>"

text \<open>
  The deferred closure every traced method installs:
  \<^verbatim>\<open>defer func() { if err != nil { span.RecordError(ctx, err) }; span.End() }()\<close>
  It runs after the result parameters are set by the return statement.
\<close>

definition deferred :: "nat \<Rightarrow> context \<Rightarrow> error option \<Rightarrow> 'db world \<Rightarrow> 'db world" where
  "deferred span ctx err w =
     span_End span (case err of None \<Rightarrow> w | Some e \<Rightarrow> span_RecordError span ctx e w)"

text \<open>
  The frame shared by the traced methods: start the span from \<open>ctx0\<close>, set
  \<open>component\<close>, set the further attributes, run the body with the context the tracer
  returned, then run the deferred closure on the error of the result. When
  \<open>tracer.Start\<close> panics, nothing was deferred yet and the method ends there. When the
  body panics, the deferred closure runs while the panic goes up; the only bodies that
  can panic call the facade's own \<open>Exec\<close> or \<open>Query\<close> in a return statement, where the
  result parameter \<open>err\<close> is still nil.
\<close>

definition traced ::
  "tracer \<Rightarrow> context option \<Rightarrow> string \<Rightarrow> (string \<times> attr_value) list \<Rightarrow> ('r \<Rightarrow> error option)
   \<Rightarrow> (context \<Rightarrow> 'db world \<Rightarrow> 'r outcome \<times> 'db world) \<Rightarrow> 'db world
   \<Rightarrow> 'r outcome \<times> 'db world" where
  "traced t ctx0 name attrs errf body w =
     (case tracer_Start t ctx0 name w of
        (Panics, w1) \<Rightarrow> (Panics, w1)
      | (Returns (ctx, span), w1) \<Rightarrow>
          (case body ctx
                  (span_SetAttributes span attrs
                     (span_SetAttribute span ''component'' (AString ''database/sql'') w1)) of
             (Panics, w2) \<Rightarrow> (Panics, deferred span ctx None w2)
           | (Returns r, w2) \<Rightarrow> (Returns r, deferred span ctx (errf r) w2)))"

section \<open>The facades\<close>

record 'db wrappedDriver =
  d_tracer :: tracer
  d_parent :: "'db driver_Driver"

record 'db wrappedConn =
  c_tracer :: tracer
  c_parent :: "'db driver_Conn"

record 'db wrappedTx =
  t_tracer :: tracer
  t_ctx :: "context option"
  t_parent :: "'db driver_Tx"

record 'db wrappedStmt =
  s_tracer :: tracer
  s_ctx :: "context option"
  s_query :: string
  s_parent :: "'db driver_Stmt"

record 'db wrappedResult =
  r_tracer :: tracer
  r_ctx :: "context option"
  r_parent :: "'db driver_Result"

record 'db wrappedRows =
  rw_tracer :: tracer
  rw_ctx :: "context option"
  rw_parent :: "'db driver_Rows"

subsection \<open>namedValueToValue\<close>

fun namedValueToValue_loop :: "nat \<Rightarrow> named_value list \<Rightarrow> dvalue list \<Rightarrow> error + dvalue list" where
  "namedValueToValue_loop n [] dargs = Inr dargs"
| "namedValueToValue_loop n (param # rest) dargs =
     (if length (nv_Name param) > 0
      then Inl (ErrorsNew ''sql: driver does not support the use of Named Parameters'')
      else namedValueToValue_loop (Suc n) rest (dargs[n := nv_Value param]))"

definition namedValueToValue :: "named_value list \<Rightarrow> error + dvalue list" where
  "namedValueToValue named = namedValueToValue_loop 0 named (replicate (length named) VNil)"

subsection \<open>Driver facade\<close>

definition wrappedDriver_Open ::
  "'db wrappedDriver \<Rightarrow> string \<Rightarrow> 'db world \<Rightarrow> (error + 'db wrappedConn) \<times> 'db world" where
  "wrappedDriver_Open d name w =
     (case native_call (N_Open name) sum_err (drv_Open (d_parent d) name) w of
        (Inl err, w') \<Rightarrow> (Inl err, w')
      | (Inr conn, w') \<Rightarrow> (Inr \<lparr>c_tracer = d_tracer d, c_parent = conn\<rparr>, w'))"

subsection \<open>Connection facade\<close>

definition wrappedConn_Prepare ::
  "'db wrappedConn \<Rightarrow> string \<Rightarrow> 'db world \<Rightarrow> (error + 'db wrappedStmt) \<times> 'db world" where
  "wrappedConn_Prepare c query w =
     (case native_call (N_Conn_Prepare query) sum_err (conn_Prepare (c_parent c) query) w of
        (Inl err, w') \<Rightarrow> (Inl err, w')
      | (Inr parent, w') \<Rightarrow>
          (Inr \<lparr>s_tracer = c_tracer c, s_ctx = None, s_query = query, s_parent = parent\<rparr>, w'))"

definition wrappedConn_Close :: "'db wrappedConn \<Rightarrow> 'db world \<Rightarrow> error option \<times> 'db world" where
  "wrappedConn_Close c w = native_call N_Conn_Close id (conn_Close (c_parent c)) w"

definition wrappedConn_Begin ::
  "'db wrappedConn \<Rightarrow> 'db world \<Rightarrow> (error + 'db wrappedTx) \<times> 'db world" where
  "wrappedConn_Begin c w =
     (case native_call N_Conn_Begin sum_err (conn_Begin (c_parent c)) w of
        (Inl err, w') \<Rightarrow> (Inl err, w')
      | (Inr tx, w') \<Rightarrow> (Inr \<lparr>t_tracer = c_tracer c, t_ctx = None, t_parent = tx\<rparr>, w'))"

definition wrappedConn_BeginTx ::
  "'db wrappedConn \<Rightarrow> context \<Rightarrow> tx_options \<Rightarrow> 'db world
   \<Rightarrow> (error + 'db wrappedTx) outcome \<times> 'db world" where
  "wrappedConn_BeginTx c ctx0 opts w =
     traced (c_tracer c) (Some ctx0) ''sql-tx-begin'' [] sum_err
       (\<lambda>ctx w.
          returns
            (case conn_BeginTx (c_parent c) of
               Some connBeginTx \<Rightarrow>
                 (case native_call (N_Conn_BeginTx ctx opts) sum_err (connBeginTx ctx opts) w of
                    (Inl err, w') \<Rightarrow> (Inl err, w')
                  | (Inr tx, w') \<Rightarrow>
                      (Inr \<lparr>t_tracer = c_tracer c, t_ctx = Some ctx, t_parent = tx\<rparr>, w'))
             | None \<Rightarrow>
                 (case native_call N_Conn_Begin sum_err (conn_Begin (c_parent c)) w of
                    (Inl err, w') \<Rightarrow> (Inl err, w')
                  | (Inr tx, w') \<Rightarrow>
                      (Inr \<lparr>t_tracer = c_tracer c, t_ctx = Some ctx, t_parent = tx\<rparr>, w'))))
       w"

definition wrappedConn_PrepareContext ::
  "'db wrappedConn \<Rightarrow> context \<Rightarrow> string \<Rightarrow> 'db world
   \<Rightarrow> (error + 'db wrappedStmt) outcome \<times> 'db world" where
  "wrappedConn_PrepareContext c ctx0 query w =
     traced (c_tracer c) (Some ctx0) ''sql-prepare'' [(''query'', AString query)] sum_err
       (\<lambda>ctx w.
          returns
            (case conn_PrepareContext (c_parent c) of
               Some connPrepareCtx \<Rightarrow>
                 (case native_call (N_Conn_PrepareContext ctx query) sum_err
                         (connPrepareCtx ctx query) w of
                    (Inl err, w') \<Rightarrow> (Inl err, w')
                  | (Inr stmt, w') \<Rightarrow>
                      (Inr \<lparr>s_tracer = c_tracer c, s_ctx = Some ctx, s_query = [],
                            s_parent = stmt\<rparr>,
                       w'))
             | None \<Rightarrow> wrappedConn_Prepare c query w))
       w"

definition wrappedConn_Exec ::
  "'db wrappedConn \<Rightarrow> string \<Rightarrow> dvalue list \<Rightarrow> 'db world \<Rightarrow> (error + 'db wrappedResult) \<times> 'db world" where
  "wrappedConn_Exec c query args w =
     (case conn_Exec (c_parent c) of
        Some execer \<Rightarrow>
          (case native_call (N_Conn_Exec query args) sum_err (execer query args) w of
             (Inl err, w') \<Rightarrow> (Inl err, w')
           | (Inr res, w') \<Rightarrow>
               (Inr \<lparr>r_tracer = c_tracer c, r_ctx = None, r_parent = res\<rparr>, w'))
      | None \<Rightarrow> (Inl ErrSkip, w))"

definition wrappedConn_ExecContext ::
  "'db wrappedConn \<Rightarrow> context \<Rightarrow> string \<Rightarrow> named_value list \<Rightarrow> 'db world
   \<Rightarrow> (error + 'db wrappedResult) outcome \<times> 'db world" where
  "wrappedConn_ExecContext c ctx0 query args w =
     traced (c_tracer c) (Some ctx0) ''sql-conn-exec''
       [(''query'', AString query), (''args'', APrettyNamed args)] sum_err
       (\<lambda>ctx w.
          returns
            (case conn_ExecContext (c_parent c) of
               Some execContext \<Rightarrow>
                 (case native_call (N_Conn_ExecContext ctx query args) sum_err
                         (execContext ctx query args) w of
                    (Inl err, w') \<Rightarrow> (Inl err, w')
                  | (Inr res, w') \<Rightarrow>
                      (Inr \<lparr>r_tracer = c_tracer c, r_ctx = Some ctx, r_parent = res\<rparr>,
                       w'))
             | None \<Rightarrow>
                 (case namedValueToValue args of
                    Inl err \<Rightarrow> (Inl err, w)
                  | Inr dargs \<Rightarrow>
                      (case ctx_err ctx of
                         Some cerr \<Rightarrow> (Inl cerr, w)
                       | None \<Rightarrow> wrappedConn_Exec c query dargs w))))
       w"

definition wrappedConn_Ping ::
  "'db wrappedConn \<Rightarrow> context \<Rightarrow> 'db world \<Rightarrow> error option outcome \<times> 'db world" where
  "wrappedConn_Ping c ctx0 w =
     (case conn_Ping (c_parent c) of
        Some pinger \<Rightarrow>
          traced (c_tracer c) (Some ctx0) ''sql-ping'' [] id
            (\<lambda>ctx w. returns (native_call (N_Conn_Ping ctx) id (pinger ctx) w)) w
      | None \<Rightarrow> (Returns None, w))"

definition wrappedConn_Query ::
  "'db wrappedConn \<Rightarrow> string \<Rightarrow> dvalue list \<Rightarrow> 'db world \<Rightarrow> (error + 'db wrappedRows) \<times> 'db world" where
  "wrappedConn_Query c query args w =
     (case conn_Query (c_parent c) of
        Some queryer \<Rightarrow>
          (case native_call (N_Conn_Query query args) sum_err (queryer query args) w of
             (Inl err, w') \<Rightarrow> (Inl err, w')
           | (Inr rows, w') \<Rightarrow>
               (Inr \<lparr>rw_tracer = c_tracer c, rw_ctx = None, rw_parent = rows\<rparr>, w'))
      | None \<Rightarrow> (Inl ErrSkip, w))"

definition wrappedConn_QueryContext ::
  "'db wrappedConn \<Rightarrow> context \<Rightarrow> string \<Rightarrow> named_value list \<Rightarrow> 'db world
   \<Rightarrow> (error + 'db wrappedRows) outcome \<times> 'db world" where
  "wrappedConn_QueryContext c ctx0 query args w =
     traced (c_tracer c) (Some ctx0) ''sql-conn-query''
       [(''query'', AString query), (''args'', APrettyNamed args)] sum_err
       (\<lambda>ctx w.
          returns
            (case conn_QueryContext (c_parent c) of
               Some queryerContext \<Rightarrow>
                 (case native_call (N_Conn_QueryContext ctx query args) sum_err
                         (queryerContext ctx query args) w of
                    (Inl err, w') \<Rightarrow> (Inl err, w')
                  | (Inr rows, w') \<Rightarrow>
                      (Inr \<lparr>rw_tracer = c_tracer c, rw_ctx = Some ctx, rw_parent = rows\<rparr>,
                       w'))
             | None \<Rightarrow>
                 (case namedValueToValue args of
                    Inl err \<Rightarrow> (Inl err, w)
                  | Inr dargs \<Rightarrow>
                      (case ctx_err ctx of
                         Some cerr \<Rightarrow> (Inl cerr, w)
                       | None \<Rightarrow> wrappedConn_Query c query dargs w))))
       w"

subsection \<open>Transaction facade\<close>

definition wrappedTx_Commit ::
  "'db wrappedTx \<Rightarrow> 'db world \<Rightarrow> error option outcome \<times> 'db world" where
  "wrappedTx_Commit t w =
     traced (t_tracer t) (t_ctx t) ''sql-tx-commit'' [] id
       (\<lambda>ctx w. returns (native_call N_Tx_Commit id (tx_Commit (t_parent t)) w)) w"

definition wrappedTx_Rollback ::
  "'db wrappedTx \<Rightarrow> 'db world \<Rightarrow> error option outcome \<times> 'db world" where
  "wrappedTx_Rollback t w =
     traced (t_tracer t) (t_ctx t) ''sql-tx-rollback'' [] id
       (\<lambda>ctx w. returns (native_call N_Tx_Rollback id (tx_Rollback (t_parent t)) w)) w"

subsection \<open>Statement facade\<close>

definition wrappedStmt_Close ::
  "'db wrappedStmt \<Rightarrow> 'db world \<Rightarrow> error option outcome \<times> 'db world" where
  "wrappedStmt_Close s w =
     traced (s_tracer s) (s_ctx s) ''sql-stmt-close'' [] id
       (\<lambda>ctx w. returns (native_call N_Stmt_Close id (stmt_Close (s_parent s)) w)) w"

definition wrappedStmt_NumInput :: "'db wrappedStmt \<Rightarrow> 'db world \<Rightarrow> int \<times> 'db world" where
  "wrappedStmt_NumInput s w = native_call N_Stmt_NumInput no_err (stmt_NumInput (s_parent s)) w"

definition wrappedStmt_Exec ::
  "'db wrappedStmt \<Rightarrow> dvalue list \<Rightarrow> 'db world
   \<Rightarrow> (error + 'db wrappedResult) outcome \<times> 'db world" where
  "wrappedStmt_Exec s args w =
     traced (s_tracer s) (s_ctx s) ''sql-stmt-exec''
       [(''query'', AString (s_query s)), (''args'', APrettyValues args)] sum_err
       (\<lambda>ctx w.
          returns
            (case native_call (N_Stmt_Exec args) sum_err (stmt_Exec (s_parent s) args) w of
               (Inl err, w') \<Rightarrow> (Inl err, w')
             | (Inr res, w') \<Rightarrow>
                 (Inr \<lparr>r_tracer = s_tracer s, r_ctx = s_ctx s, r_parent = res\<rparr>, w')))
       w"

definition wrappedStmt_Query ::
  "'db wrappedStmt \<Rightarrow> dvalue list \<Rightarrow> 'db world
   \<Rightarrow> (error + 'db wrappedRows) outcome \<times> 'db world" where
  "wrappedStmt_Query s args w =
     traced (s_tracer s) (s_ctx s) ''sql-stmt-query''
       [(''query'', AString (s_query s)), (''args'', APrettyValues args)] sum_err
       (\<lambda>ctx w.
          returns
            (case native_call (N_Stmt_Query args) sum_err (stmt_Query (s_parent s) args) w of
               (Inl err, w') \<Rightarrow> (Inl err, w')
             | (Inr rows, w') \<Rightarrow>
                 (Inr \<lparr>rw_tracer = s_tracer s, rw_ctx = s_ctx s, rw_parent = rows\<rparr>, w')))
       w"

text \<open>
  In \<open>ExecContext\<close> and \<open>QueryContext\<close> of the statement the source writes
  \<^verbatim>\<open>ctx, span := s.tracer.Start(s.ctx, ...)\<close>: the short variable declaration assigns to
  the parameter \<open>ctx\<close>, so from this line on \<open>ctx\<close> is the context the tracer returned for
  the statement's own context, and the context the caller supplied (\<open>ctx0\<close> here) is not
  read again.
\<close>

definition wrappedStmt_ExecContext ::
  "'db wrappedStmt \<Rightarrow> context \<Rightarrow> named_value list \<Rightarrow> 'db world
   \<Rightarrow> (error + 'db wrappedResult) outcome \<times> 'db world" where
  "wrappedStmt_ExecContext s ctx0 args w =
     traced (s_tracer s) (s_ctx s) ''sql-stmt-exec''
       [(''query'', AString (s_query s)), (''args'', APrettyNamed args)] sum_err
       (\<lambda>ctx w.
          case stmt_ExecContext (s_parent s) of
            Some stmtExecContext \<Rightarrow>
              returns
                (case native_call (N_Stmt_ExecContext ctx args) sum_err (stmtExecContext ctx args) w of
                   (Inl err, w') \<Rightarrow> (Inl err, w')
                 | (Inr res, w') \<Rightarrow>
                     (Inr \<lparr>r_tracer = s_tracer s, r_ctx = Some ctx, r_parent = res\<rparr>, w'))
          | None \<Rightarrow>
              (case namedValueToValue args of
                 Inl err \<Rightarrow> (Returns (Inl err), w)
               | Inr dargs \<Rightarrow>
                   (case ctx_err ctx of
                      Some cerr \<Rightarrow> (Returns (Inl cerr), w)
                    | None \<Rightarrow> wrappedStmt_Exec s dargs w)))
       w"

definition wrappedStmt_QueryContext ::
  "'db wrappedStmt \<Rightarrow> context \<Rightarrow> named_value list \<Rightarrow> 'db world
   \<Rightarrow> (error + 'db wrappedRows) outcome \<times> 'db world" where
  "wrappedStmt_QueryContext s ctx0 args w =
     traced (s_tracer s) (s_ctx s) ''sql-stmt-query''
       [(''query'', AString (s_query s)), (''args'', APrettyNamed args)] sum_err
       (\<lambda>ctx w.
          case stmt_QueryContext (s_parent s) of
            Some stmtQueryContext \<Rightarrow>
              returns
                (case native_call (N_Stmt_QueryContext ctx args) sum_err (stmtQueryContext ctx args) w of
                   (Inl err, w') \<Rightarrow> (Inl err, w')
                 | (Inr rows, w') \<Rightarrow>
                     (Inr \<lparr>rw_tracer = s_tracer s, rw_ctx = Some ctx, rw_parent = rows\<rparr>, w'))
          | None \<Rightarrow>
              (case namedValueToValue args of
                 Inl err \<Rightarrow> (Returns (Inl err), w)
               | Inr dargs \<Rightarrow>
                   (case ctx_err ctx of
                      Some cerr \<Rightarrow> (Returns (Inl cerr), w)
                    | None \<Rightarrow> wrappedStmt_Query s dargs w)))
       w"

subsection \<open>Result facade\<close>

definition wrappedResult_LastInsertId ::
  "'db wrappedResult \<Rightarrow> 'db world \<Rightarrow> (int64 \<times> error option) outcome \<times> 'db world" where
  "wrappedResult_LastInsertId r w =
     traced (r_tracer r) (r_ctx r) ''sql-res-lastInsertId'' [] snd
       (\<lambda>ctx w. returns (native_call N_Res_LastInsertId snd (res_LastInsertId (r_parent r)) w)) w"

definition wrappedResult_RowsAffected ::
  "'db wrappedResult \<Rightarrow> 'db world \<Rightarrow> (int64 \<times> error option) outcome \<times> 'db world" where
  "wrappedResult_RowsAffected r w =
     traced (r_tracer r) (r_ctx r) ''sql-res-rowsAffected'' [] snd
       (\<lambda>ctx w. returns (native_call N_Res_RowsAffected snd (res_RowsAffected (r_parent r)) w)) w"

subsection \<open>Row cursor facade\<close>

definition wrappedRows_Columns :: "'db wrappedRows \<Rightarrow> 'db world \<Rightarrow> string list \<times> 'db world" where
  "wrappedRows_Columns r w = native_call N_Rows_Columns no_err (rows_Columns (rw_parent r)) w"

definition wrappedRows_Close :: "'db wrappedRows \<Rightarrow> 'db world \<Rightarrow> error option \<times> 'db world" where
  "wrappedRows_Close r w = native_call N_Rows_Close id (rows_Close (rw_parent r)) w"

definition wrappedRows_Next ::
  "'db wrappedRows \<Rightarrow> dvalue list \<Rightarrow> 'db world \<Rightarrow> (dvalue list \<times> error option) outcome \<times> 'db world" where
  "wrappedRows_Next r dest w =
     traced (rw_tracer r) (rw_ctx r) ''sql-rows-next'' [] snd
       (\<lambda>ctx w. returns (native_call (N_Rows_Next dest) snd (rows_Next (rw_parent r) dest) w)) w"

section \<open>Reading the recorded events\<close>

fun is_SpanStart :: "event \<Rightarrow> bool" where
  "is_SpanStart (SpanStart t n c name) = True"
| "is_SpanStart e = False"

fun is_SpanEnd :: "event \<Rightarrow> bool" where
  "is_SpanEnd (SpanEnd n) = True"
| "is_SpanEnd e = False"

fun is_Native :: "event \<Rightarrow> bool" where
  "is_Native (Native opn err) = True"
| "is_Native e = False"

definition span_starts :: "event list \<Rightarrow> nat" where
  "span_starts evs = length (filter is_SpanStart evs)"

definition span_ends :: "event list \<Rightarrow> nat" where
  "span_ends evs = length (filter is_SpanEnd evs)"

definition native_calls :: "event list \<Rightarrow> event list" where
  "native_calls evs = filter is_Native evs"

text \<open>The events an invocation added: those of the world after it, past those before it.\<close>

definition new_events :: "'db world \<Rightarrow> 'db world \<Rightarrow> event list" where
  "new_events w w' = drop (length (events w)) (events w')"

fun recorded_on :: "nat \<Rightarrow> event \<Rightarrow> error list" where
  "recorded_on span (RecordError n c e) = (if n = span then [e] else [])"
| "recorded_on span ev = []"

definition errors_recorded :: "nat \<Rightarrow> event list \<Rightarrow> error list" where
  "errors_recorded span evs = concat (map (recorded_on span) evs)"

fun attr_on :: "nat \<Rightarrow> string \<Rightarrow> event \<Rightarrow> attr_value list" where
  "attr_on span k (SetAttribute n k' v) = (if n = span \<and> k' = k then [v] else [])"
| "attr_on span k ev = []"

definition span_attr :: "nat \<Rightarrow> string \<Rightarrow> event list \<Rightarrow> attr_value list" where
  "span_attr span k evs = concat (map (attr_on span k) evs)"

text \<open>
  The events of a traced call, started from the context \<open>ctx\<close>, whose body fails with
  \<open>e\<close> before any delegation.
\<close>

definition failed_span ::
  "tracer \<Rightarrow> context \<Rightarrow> string \<Rightarrow> (string \<times> attr_value) list \<Rightarrow> error \<Rightarrow> nat \<Rightarrow> event list" where
  "failed_span t ctx name attrs e n =
     [SpanStart t n (Some ctx) name, SetAttribute n ''component'' (AString ''database/sql'')] @
     map (\<lambda>(k, v). SetAttribute n k v) attrs @
     [RecordError n (ctx\<lparr>ctx_span := Some n\<rparr>) e, SpanEnd n]"

section \<open>The traced operations\<close>

text \<open>
  One value for each call of a method of the facades that starts a span, so that a
  property can be stated once for all of them. \<open>invoke\<close> runs the call and keeps whether
  it returned and the error it returned.
\<close>

datatype 'db invocation =
    Call_Conn_BeginTx "'db wrappedConn" "context" tx_options
  | Call_Conn_PrepareContext "'db wrappedConn" "context" string
  | Call_Conn_ExecContext "'db wrappedConn" "context" string "named_value list"
  | Call_Conn_QueryContext "'db wrappedConn" "context" string "named_value list"
  | Call_Conn_Ping "'db wrappedConn" "context"
  | Call_Tx_Commit "'db wrappedTx"
  | Call_Tx_Rollback "'db wrappedTx"
  | Call_Stmt_Close "'db wrappedStmt"
  | Call_Stmt_Exec "'db wrappedStmt" "dvalue list"
  | Call_Stmt_Query "'db wrappedStmt" "dvalue list"
  | Call_Stmt_ExecContext "'db wrappedStmt" "context" "named_value list"
  | Call_Stmt_QueryContext "'db wrappedStmt" "context" "named_value list"
  | Call_Result_LastInsertId "'db wrappedResult"
  | Call_Result_RowsAffected "'db wrappedResult"
  | Call_Rows_Next "'db wrappedRows" "dvalue list"

definition returning ::
  "('r \<Rightarrow> error option) \<Rightarrow> 'r outcome \<times> 'db world \<Rightarrow> error option outcome \<times> 'db world" where
  "returning errf rw =
     (case fst rw of Panics \<Rightarrow> (Panics, snd rw) | Returns r \<Rightarrow> (Returns (errf r), snd rw))"

fun invoke :: "'db invocation \<Rightarrow> 'db world \<Rightarrow> error option outcome \<times> 'db world" where
  "invoke (Call_Conn_BeginTx c ctx opts) w = returning sum_err (wrappedConn_BeginTx c ctx opts w)"
| "invoke (Call_Conn_PrepareContext c ctx q) w =
     returning sum_err (wrappedConn_PrepareContext c ctx q w)"
| "invoke (Call_Conn_ExecContext c ctx q args) w =
     returning sum_err (wrappedConn_ExecContext c ctx q args w)"
| "invoke (Call_Conn_QueryContext c ctx q args) w =
     returning sum_err (wrappedConn_QueryContext c ctx q args w)"
| "invoke (Call_Conn_Ping c ctx) w = returning id (wrappedConn_Ping c ctx w)"
| "invoke (Call_Tx_Commit t) w = returning id (wrappedTx_Commit t w)"
| "invoke (Call_Tx_Rollback t) w = returning id (wrappedTx_Rollback t w)"
| "invoke (Call_Stmt_Close s) w = returning id (wrappedStmt_Close s w)"
| "invoke (Call_Stmt_Exec s args) w = returning sum_err (wrappedStmt_Exec s args w)"
| "invoke (Call_Stmt_Query s args) w = returning sum_err (wrappedStmt_Query s args w)"
| "invoke (Call_Stmt_ExecContext s ctx args) w =
     returning sum_err (wrappedStmt_ExecContext s ctx args w)"
| "invoke (Call_Stmt_QueryContext s ctx args) w =
     returning sum_err (wrappedStmt_QueryContext s ctx args w)"
| "invoke (Call_Result_LastInsertId r) w = returning snd (wrappedResult_LastInsertId r w)"
| "invoke (Call_Result_RowsAffected r) w = returning snd (wrappedResult_RowsAffected r w)"
| "invoke (Call_Rows_Next r dest) w = returning snd (wrappedRows_Next r dest w)"

fun native_error :: "event \<Rightarrow> error list" where
  "native_error (Native opn (Some e)) = [e]"
| "native_error ev = []"

definition native_errors :: "event list \<Rightarrow> error list" where
  "native_errors evs = concat (map native_error evs)"

text \<open>
  How many spans a call starts, read off the call. None when the span would be started
  from a nil context (the call panics there), and none for \<open>Ping\<close> on a connection
  without \<open>driver.Pinger\<close>. Two for \<open>ExecContext\<close> and \<open>QueryContext\<close> of a statement when
  the fallback reaches the legacy method (no context-aware interface, only unnamed
  arguments, the statement's own context not cancelled), since that method starts a span
  of its own. One otherwise.
\<close>

definition one_unless_nil :: "context option \<Rightarrow> nat" where
  "one_unless_nil ctx = (case ctx of None \<Rightarrow> 0 | Some c \<Rightarrow> 1)"

fun spans_started :: "'db invocation \<Rightarrow> nat" where
  "spans_started (Call_Conn_Ping c ctx) =
     (case conn_Ping (c_parent c) of None \<Rightarrow> 0 | Some pinger \<Rightarrow> 1)"
| "spans_started (Call_Tx_Commit t) = one_unless_nil (t_ctx t)"
| "spans_started (Call_Tx_Rollback t) = one_unless_nil (t_ctx t)"
| "spans_started (Call_Stmt_Close s) = one_unless_nil (s_ctx s)"
| "spans_started (Call_Stmt_Exec s args) = one_unless_nil (s_ctx s)"
| "spans_started (Call_Stmt_Query s args) = one_unless_nil (s_ctx s)"
| "spans_started (Call_Stmt_ExecContext s ctx args) =
     (case s_ctx s of
        None \<Rightarrow> 0
      | Some sc \<Rightarrow>
          (case stmt_ExecContext (s_parent s) of
             Some stmtExecContext \<Rightarrow> 1
           | None \<Rightarrow>
               if list_all (\<lambda>a. nv_Name a = []) args \<and> ctx_err sc = None then 2 else 1))"
| "spans_started (Call_Stmt_QueryContext s ctx args) =
     (case s_ctx s of
        None \<Rightarrow> 0
      | Some sc \<Rightarrow>
          (case stmt_QueryContext (s_parent s) of
             Some stmtQueryContext \<Rightarrow> 1
           | None \<Rightarrow>
               if list_all (\<lambda>a. nv_Name a = []) args \<and> ctx_err sc = None then 2 else 1))"
| "spans_started (Call_Result_LastInsertId r) = one_unless_nil (r_ctx r)"
| "spans_started (Call_Result_RowsAffected r) = one_unless_nil (r_ctx r)"
| "spans_started (Call_Rows_Next r dest) = one_unless_nil (rw_ctx r)"
| "spans_started i = 1"

section \<open>Open, prepare, exec, close\<close>

record 'db observed =
  step_errors :: "error option list"
  exec_result :: "'db driver_Result option"

text \<open>
  The sequence open, prepare, exec, close through the facades, by the methods without
  a context: \<open>Open\<close> of the driver facade, \<open>Prepare\<close> of the connection facade, \<open>Exec\<close> and
  \<open>Close\<close> of the statement facade, \<open>Close\<close> of the connection facade. It stops when
  open or prepare fails, and it ends where a step panics. The caller observes the error
  of each step and, through the result facade, the native result of exec.
\<close>

definition wrapped_sequence ::
  "'db wrappedDriver \<Rightarrow> string \<Rightarrow> string \<Rightarrow> dvalue list \<Rightarrow> 'db world
   \<Rightarrow> 'db observed outcome \<times> 'db world" where
  "wrapped_sequence d name query args w =
     (case wrappedDriver_Open d name w of
        (Inl err, wa) \<Rightarrow> (Returns \<lparr>step_errors = [Some err], exec_result = None\<rparr>, wa)
      | (Inr conn, wa) \<Rightarrow>
          (case wrappedConn_Prepare conn query wa of
             (Inl err, wb) \<Rightarrow>
               (Returns \<lparr>step_errors = [None, Some err], exec_result = None\<rparr>, wb)
           | (Inr stmt, wb) \<Rightarrow>
               (case wrappedStmt_Exec stmt args wb of
                  (Panics, wc) \<Rightarrow> (Panics, wc)
                | (Returns res, wc) \<Rightarrow>
                    (case wrappedStmt_Close stmt wc of
                       (Panics, wd) \<Rightarrow> (Panics, wd)
                     | (Returns serr, wd) \<Rightarrow>
                         (case wrappedConn_Close conn wd of
                            (cerr, we) \<Rightarrow>
                              (Returns
                                 \<lparr>step_errors = [None, None, sum_err res, serr, cerr],
                                  exec_result = (case res of Inl err \<Rightarrow> None
                                                 | Inr r \<Rightarrow> Some (r_parent r))\<rparr>,
                               we))))))"

text \<open>
  The same sequence by the methods that take a context, the ones \<open>database/sql\<close> calls
  on a connection and a statement that offer them, as the facades always do:
  \<open>PrepareContext\<close> of the connection facade and \<open>ExecContext\<close> of the statement facade.
\<close>

definition wrapped_sequence_ctx ::
  "'db wrappedDriver \<Rightarrow> string \<Rightarrow> context \<Rightarrow> string \<Rightarrow> named_value list \<Rightarrow> 'db world
   \<Rightarrow> 'db observed outcome \<times> 'db world" where
  "wrapped_sequence_ctx d name ctx query args w =
     (case wrappedDriver_Open d name w of
        (Inl err, wa) \<Rightarrow> (Returns \<lparr>step_errors = [Some err], exec_result = None\<rparr>, wa)
      | (Inr conn, wa) \<Rightarrow>
          (case wrappedConn_PrepareContext conn ctx query wa of
             (Panics, wb) \<Rightarrow> (Panics, wb)
           | (Returns (Inl err), wb) \<Rightarrow>
               (Returns \<lparr>step_errors = [None, Some err], exec_result = None\<rparr>, wb)
           | (Returns (Inr stmt), wb) \<Rightarrow>
               (case wrappedStmt_ExecContext stmt ctx args wb of
                  (Panics, wc) \<Rightarrow> (Panics, wc)
                | (Returns res, wc) \<Rightarrow>
                    (case wrappedStmt_Close stmt wc of
                       (Panics, wd) \<Rightarrow> (Panics, wd)
                     | (Returns serr, wd) \<Rightarrow>
                         (case wrappedConn_Close conn wd of
                            (cerr, we) \<Rightarrow>
                              (Returns
                                 \<lparr>step_errors = [None, None, sum_err res, serr, cerr],
                                  exec_result = (case res of Inl err \<Rightarrow> None
                                                 | Inr r \<Rightarrow> Some (r_parent r))\<rparr>,
                               we))))))"

text \<open>
  The same sequence as the specification words it, "directly against the unwrapped
  driver": the same steps, each one the native method itself.
\<close>

definition direct_sequence ::
  "'db driver_Driver \<Rightarrow> string \<Rightarrow> string \<Rightarrow> dvalue list \<Rightarrow> 'db world
   \<Rightarrow> 'db observed \<times> 'db world" where
  "direct_sequence d name query args w =
     (case native_call (N_Open name) sum_err (drv_Open d name) w of
        (Inl err, wa) \<Rightarrow> (\<lparr>step_errors = [Some err], exec_result = None\<rparr>, wa)
      | (Inr conn, wa) \<Rightarrow>
          (case native_call (N_Conn_Prepare query) sum_err (conn_Prepare conn query) wa of
             (Inl err, wb) \<Rightarrow> (\<lparr>step_errors = [None, Some err], exec_result = None\<rparr>, wb)
           | (Inr stmt, wb) \<Rightarrow>
               (case native_call (N_Stmt_Exec args) sum_err (stmt_Exec stmt args) wb of
                  (res, wc) \<Rightarrow>
                    (case native_call N_Stmt_Close id (stmt_Close stmt) wc of
                       (serr, wd) \<Rightarrow>
                         (case native_call N_Conn_Close id (conn_Close conn) wd of
                            (cerr, we) \<Rightarrow>
                              (\<lparr>step_errors = [None, None, sum_err res, serr, cerr],
                                exec_result = (case res of Inl err \<Rightarrow> None
                                               | Inr r \<Rightarrow> Some r)\<rparr>,
                               we))))))"

section \<open>Test doubles\<close>

text \<open>
  A mock driver over a store that lists the statements executed, in order. \<open>mock_conn\<close>
  implements only the mandatory connection interface; \<open>mock_conn_ctx\<close> implements every
  optional interface. Statements made by either implement only the legacy interface.
\<close>

definition mock_result :: "string list driver_Result" where
  "mock_result = \<lparr>res_LastInsertId = (\<lambda>s. ((1, None), s)),
                  res_RowsAffected = (\<lambda>s. ((1, None), s))\<rparr>"

definition mock_rows :: "string list driver_Rows" where
  "mock_rows = \<lparr>rows_Columns = (\<lambda>s. ([''id''], s)),
                rows_Close = (\<lambda>s. (None, s)),
                rows_Next = (\<lambda>dest s. ((dest, Some (ErrorsNew ''EOF'')), s))\<rparr>"

definition mock_stmt :: "string \<Rightarrow> string list driver_Stmt" where
  "mock_stmt q = \<lparr>stmt_Close = (\<lambda>s. (None, s)),
                  stmt_NumInput = (\<lambda>s. (- 1, s)),
                  stmt_Exec = (\<lambda>args s. (Inr mock_result, s @ [q])),
                  stmt_Query = (\<lambda>args s. (Inr mock_rows, s)),
                  stmt_ExecContext = None,
                  stmt_QueryContext = None\<rparr>"

definition mock_tx :: "string list driver_Tx" where
  "mock_tx = \<lparr>tx_Commit = (\<lambda>s. (None, s @ [''COMMIT''])),
              tx_Rollback = (\<lambda>s. (Some (DriverError ''rollback failed''), s))\<rparr>"

definition mock_conn :: "string list driver_Conn" where
  "mock_conn = \<lparr>conn_Prepare = (\<lambda>q s. (Inr (mock_stmt q), s)),
                conn_Close = (\<lambda>s. (None, s)),
                conn_Begin = (\<lambda>s. (Inr mock_tx, s @ [''BEGIN''])),
                conn_BeginTx = None, conn_PrepareContext = None, conn_Exec = None,
                conn_ExecContext = None, conn_Ping = None, conn_Query = None,
                conn_QueryContext = None\<rparr>"

definition mock_conn_ctx :: "string list driver_Conn" where
  "mock_conn_ctx = \<lparr>conn_Prepare = (\<lambda>q s. (Inr (mock_stmt q), s)),
                conn_Close = (\<lambda>s. (None, s)),
                conn_Begin = (\<lambda>s. (Inr mock_tx, s @ [''BEGIN''])),
                conn_BeginTx = Some (\<lambda>ctx opts s. (Inr mock_tx, s @ [''BEGIN''])),
                conn_PrepareContext = Some (\<lambda>ctx q s. (Inr (mock_stmt q), s)),
                conn_Exec = Some (\<lambda>q args s. (Inr mock_result, s @ [q])),
                conn_ExecContext = Some (\<lambda>ctx q args s. (Inr mock_result, s @ [q])),
                conn_Ping = Some (\<lambda>ctx s. (Some (DriverError ''bad connection''), s)),
                conn_Query = Some (\<lambda>q args s. (Inl (DriverError ''syntax error''), s)),
                conn_QueryContext = Some (\<lambda>ctx q args s. (Inr mock_rows, s))\<rparr>"

definition mock_driver :: "string list driver_Driver" where
  "mock_driver = \<lparr>drv_Open = (\<lambda>name s. (Inr mock_conn, s))\<rparr>"

definition mock_driver_ctx :: "string list driver_Driver" where
  "mock_driver_ctx = \<lparr>drv_Open = (\<lambda>name s. (Inr mock_conn_ctx, s))\<rparr>"

definition background :: "context" where
  "background = \<lparr>ctx_err = None, ctx_span = None\<rparr>"

definition cancelled :: "context" where
  "cancelled = \<lparr>ctx_err = Some Canceled, ctx_span = None\<rparr>"

definition w0 :: "string list world" where
  "w0 = \<lparr>store = [], events = [], next_span = 0\<rparr>"

definition traced_driver :: "string list wrappedDriver" where
  "traced_driver = \<lparr>d_tracer = Tracer ''t'', d_parent = mock_driver\<rparr>"

definition traced_driver_ctx :: "string list wrappedDriver" where
  "traced_driver_ctx = \<lparr>d_tracer = Tracer ''t'', d_parent = mock_driver_ctx\<rparr>"

definition traced_conn :: "string list wrappedConn" where
  "traced_conn = \<lparr>c_tracer = Tracer ''t'', c_parent = mock_conn\<rparr>"

definition traced_conn_ctx :: "string list wrappedConn" where
  "traced_conn_ctx = \<lparr>c_tracer = Tracer ''t'', c_parent = mock_conn_ctx\<rparr>"

definition positional :: "dvalue \<Rightarrow> int \<Rightarrow> named_value" where
  "positional v i = \<lparr>nv_Name = [], nv_Ordinal = i, nv_Value = v\<rparr>"

definition named_arg :: "string \<Rightarrow> dvalue \<Rightarrow> int \<Rightarrow> named_value" where
  "named_arg n v i = \<lparr>nv_Name = n, nv_Ordinal = i, nv_Value = v\<rparr>"

definition traced_rows :: "string list wrappedRows" where
  "traced_rows = \<lparr>rw_tracer = Tracer ''t'', rw_ctx = Some background, rw_parent = mock_rows\<rparr>"

definition begun_tx :: "string list wrappedTx" where
  "begun_tx = \<lparr>t_tracer = Tracer ''t'', t_ctx = Some (background\<lparr>ctx_span := Some 0\<rparr>),
                t_parent = mock_tx\<rparr>"

definition legacy_tx :: "string list wrappedTx" where
  "legacy_tx = \<lparr>t_tracer = Tracer ''t'', t_ctx = None, t_parent = mock_tx\<rparr>"

definition prepared_stmt :: "string list wrappedStmt" where
  "prepared_stmt = \<lparr>s_tracer = Tracer ''t'', s_ctx = Some (background\<lparr>ctx_span := Some 0\<rparr>),
                    s_query = [], s_parent = mock_stmt ''INSERT INTO t VALUES (?)''\<rparr>"

definition w_prepared :: "string list world" where
  "w_prepared = \<lparr>store = [],
         events = [SpanStart (Tracer ''t'') 0 (Some background) ''sql-prepare'',
                   SetAttribute 0 ''component'' (AString ''database/sql''),
                   SetAttribute 0 ''query'' (AString ''INSERT INTO t VALUES (?)''),
                   Native (N_Conn_PrepareContext (background\<lparr>ctx_span := Some 0\<rparr>)
                             ''INSERT INTO t VALUES (?)'') None,
                   SpanEnd 0],
         next_span = Suc 0\<rparr>"

section \<open>Basic facts\<close>

lemmas frame_defs = traced_def tracer_Start_def span_SetAttribute_def span_RecordError_def
  span_End_def deferred_def native_call_def returns_def

lemma namedValueToValue_loop_unnamed:
  "\<forall>a\<in>set named. nv_Name a = [] \<Longrightarrow> length dargs = n + length named \<Longrightarrow>
   namedValueToValue_loop n named dargs = Inr (take n dargs @ map nv_Value named)"
proof (induction named arbitrary: n dargs)
  case Nil
  then show ?case by simp
next
  case (Cons a named)
  have "take (Suc n) (dargs[n := nv_Value a]) = take n dargs @ [nv_Value a]"
    using Cons.prems(2) by (simp add: take_Suc_conv_app_nth)
  with Cons show ?case by simp
qed

lemma namedValueToValue_unnamed:
  "\<forall>a\<in>set named. nv_Name a = [] \<Longrightarrow> namedValueToValue named = Inr (map nv_Value named)"
  by (simp add: namedValueToValue_def namedValueToValue_loop_unnamed)

lemma namedValueToValue_loop_named:
  "\<exists>a\<in>set named. nv_Name a \<noteq> [] \<Longrightarrow>
   namedValueToValue_loop n named dargs =
     Inl (ErrorsNew ''sql: driver does not support the use of Named Parameters'')"
  by (induction named arbitrary: n dargs) auto

lemma namedValueToValue_named:
  "\<exists>a\<in>set named. nv_Name a \<noteq> [] \<Longrightarrow>
   namedValueToValue named =
     Inl (ErrorsNew ''sql: driver does not support the use of Named Parameters'')"
  by (simp add: namedValueToValue_def namedValueToValue_loop_named)

lemma namedValueToValue_cases:
  "namedValueToValue args =
     (if list_all (\<lambda>a. nv_Name a = []) args then Inr (map nv_Value args)
      else Inl (ErrorsNew ''sql: driver does not support the use of Named Parameters''))"
  by (simp add: namedValueToValue_unnamed namedValueToValue_named list_all_iff)

lemma ping_absent:
  "conn_Ping (c_parent c) = None \<Longrightarrow> wrappedConn_Ping c ctx w = (Returns None, w)"
  by (simp add: wrappedConn_Ping_def)

lemma ping_present:
  "conn_Ping (c_parent c) = Some pinger \<Longrightarrow>
   pinger (ctx\<lparr>ctx_span := Some (next_span w)\<rparr>) (store w) = (err, s') \<Longrightarrow>
   wrappedConn_Ping c ctx w =
     (Returns err,
      w\<lparr>store := s',
        events := events w @
          [SpanStart (c_tracer c) (next_span w) (Some ctx) ''sql-ping'',
           SetAttribute (next_span w) ''component'' (AString ''database/sql''),
           Native (N_Conn_Ping (ctx\<lparr>ctx_span := Some (next_span w)\<rparr>)) err] @
          (case err of None \<Rightarrow> []
           | Some e \<Rightarrow> [RecordError (next_span w) (ctx\<lparr>ctx_span := Some (next_span w)\<rparr>) e]) @
          [SpanEnd (next_span w)],
        next_span := Suc (next_span w)\<rparr>)"
  by (simp add: wrappedConn_Ping_def frame_defs Let_def split: option.splits)

lemma new_events_append [simp]:
  "events w' = events w @ xs \<Longrightarrow> new_events w w' = xs"
  by (simp add: new_events_def)

lemma new_events_same [simp]: "new_events w w = []"
  by (simp add: new_events_def)

lemma conn_Exec_absent:
  "conn_Exec (c_parent c) = None \<Longrightarrow> wrappedConn_Exec c q args w = (Inl ErrSkip, w)"
  by (simp add: wrappedConn_Exec_def)

lemma conn_Exec_present:
  "conn_Exec (c_parent c) = Some execer \<Longrightarrow> execer q args (store w) = (r, s') \<Longrightarrow>
   wrappedConn_Exec c q args w =
     (map_sum id (\<lambda>res. \<lparr>r_tracer = c_tracer c, r_ctx = None, r_parent = res\<rparr>) r,
      w\<lparr>store := s', events := events w @ [Native (N_Conn_Exec q args) (sum_err r)]\<rparr>)"
  by (cases r) (simp_all add: wrappedConn_Exec_def native_call_def)

lemma conn_Query_absent:
  "conn_Query (c_parent c) = None \<Longrightarrow> wrappedConn_Query c q args w = (Inl ErrSkip, w)"
  by (simp add: wrappedConn_Query_def)

lemma conn_Query_present:
  "conn_Query (c_parent c) = Some queryer \<Longrightarrow> queryer q args (store w) = (r, s') \<Longrightarrow>
   wrappedConn_Query c q args w =
     (map_sum id (\<lambda>rows. \<lparr>rw_tracer = c_tracer c, rw_ctx = None, rw_parent = rows\<rparr>) r,
      w\<lparr>store := s', events := events w @ [Native (N_Conn_Query q args) (sum_err r)]\<rparr>)"
  by (cases r) (simp_all add: wrappedConn_Query_def native_call_def)

lemma conn_ExecContext_fallback_conversion_error:
  "conn_ExecContext (c_parent c) = None \<Longrightarrow> namedValueToValue args = Inl e \<Longrightarrow>
   wrappedConn_ExecContext c ctx q args w =
     (Returns (Inl e),
      w\<lparr>events := events w @
           failed_span (c_tracer c) ctx ''sql-conn-exec''
             [(''query'', AString q), (''args'', APrettyNamed args)] e (next_span w),
        next_span := Suc (next_span w)\<rparr>)"
  by (simp add: wrappedConn_ExecContext_def frame_defs failed_span_def sum_err_def Let_def)

lemma conn_ExecContext_fallback_cancelled:
  "conn_ExecContext (c_parent c) = None \<Longrightarrow> namedValueToValue args = Inr dargs \<Longrightarrow>
   ctx_err ctx = Some e \<Longrightarrow>
   wrappedConn_ExecContext c ctx q args w =
     (Returns (Inl e),
      w\<lparr>events := events w @
           failed_span (c_tracer c) ctx ''sql-conn-exec''
             [(''query'', AString q), (''args'', APrettyNamed args)] e (next_span w),
        next_span := Suc (next_span w)\<rparr>)"
  by (simp add: wrappedConn_ExecContext_def frame_defs failed_span_def sum_err_def Let_def)

lemma conn_ExecContext_fallback_skip:
  "conn_ExecContext (c_parent c) = None \<Longrightarrow> namedValueToValue args = Inr dargs \<Longrightarrow>
   ctx_err ctx = None \<Longrightarrow> conn_Exec (c_parent c) = None \<Longrightarrow>
   wrappedConn_ExecContext c ctx q args w =
     (Returns (Inl ErrSkip),
      w\<lparr>events := events w @
           failed_span (c_tracer c) ctx ''sql-conn-exec''
             [(''query'', AString q), (''args'', APrettyNamed args)] ErrSkip (next_span w),
        next_span := Suc (next_span w)\<rparr>)"
  by (simp add: wrappedConn_ExecContext_def wrappedConn_Exec_def frame_defs failed_span_def
      sum_err_def Let_def)


lemma conn_QueryContext_fallback_cancelled:
  "conn_QueryContext (c_parent c) = None \<Longrightarrow> namedValueToValue args = Inr dargs \<Longrightarrow>
   ctx_err ctx = Some e \<Longrightarrow>
   wrappedConn_QueryContext c ctx q args w =
     (Returns (Inl e),
      w\<lparr>events := events w @
           failed_span (c_tracer c) ctx ''sql-conn-query''
             [(''query'', AString q), (''args'', APrettyNamed args)] e (next_span w),
        next_span := Suc (next_span w)\<rparr>)"
  by (simp add: wrappedConn_QueryContext_def frame_defs failed_span_def sum_err_def Let_def)

lemma conn_QueryContext_fallback_skip:
  "conn_QueryContext (c_parent c) = None \<Longrightarrow> namedValueToValue args = Inr dargs \<Longrightarrow>
   ctx_err ctx = None \<Longrightarrow> conn_Query (c_parent c) = None \<Longrightarrow>
   wrappedConn_QueryContext c ctx q args w =
     (Returns (Inl ErrSkip),
      w\<lparr>events := events w @
           failed_span (c_tracer c) ctx ''sql-conn-query''
             [(''query'', AString q), (''args'', APrettyNamed args)] ErrSkip (next_span w),
        next_span := Suc (next_span w)\<rparr>)"
  by (simp add: wrappedConn_QueryContext_def wrappedConn_Query_def frame_defs failed_span_def
      sum_err_def Let_def)



text \<open>A facade that carries no context panics in \<open>tracer.Start\<close>, before anything happens.\<close>

lemma nil_context_panics:
  "traced t None name attrs errf body w = (Panics, w)"
  by (simp add: traced_def tracer_Start_def)



lemma attrs_not_start [simp]:
  "filter is_SpanStart (map (\<lambda>(k, v). SetAttribute n k v) attrs) = []"
  by (induction attrs) auto

lemma attrs_not_end [simp]:
  "filter is_SpanEnd (map (\<lambda>(k, v). SetAttribute n k v) attrs) = []"
  by (induction attrs) auto

lemma attrs_not_native [simp]:
  "filter is_Native (map (\<lambda>(k, v). SetAttribute n k v) attrs) = []"
  by (induction attrs) auto

lemma failed_span_native [simp]: "native_calls (failed_span t c name attrs e n) = []"
  by (simp add: failed_span_def native_calls_def)

lemma failed_span_starts [simp]: "span_starts (failed_span t c name attrs e n) = 1"
  by (simp add: failed_span_def span_starts_def)

lemma failed_span_ends [simp]: "span_ends (failed_span t c name attrs e n) = 1"
  by (simp add: failed_span_def span_ends_def)

lemma native_calls_Nil [simp]: "native_calls [] = []"
  by (simp add: native_calls_def)

section \<open>Ping\<close>

text \<open>
  C7. \<open>Ping(ctx)\<close>: when the wrapped connection does not implement \<open>driver.Pinger\<close>, the
  call returns nil and leaves the world as it was (no span, no native call). When it does,
  exactly these events are added, in this order: the span \<open>sql-ping\<close> is started from the
  caller's context, \<open>component\<close> is set, the native \<open>Ping\<close> is called with the context the
  tracer returned, its error (if any) is recorded on the span, the span is ended; the
  native error is what the call returns.
\<close>

theorem wrappedConn_Ping_spec:
  "(conn_Ping (c_parent c) = None \<longrightarrow> wrappedConn_Ping c ctx w = (Returns None, w)) \<and>
   (\<forall>pinger err s'.
      conn_Ping (c_parent c) = Some pinger \<and>
      pinger (ctx\<lparr>ctx_span := Some (next_span w)\<rparr>) (store w) = (err, s') \<longrightarrow>
      wrappedConn_Ping c ctx w =
        (Returns err, w\<lparr>store := s',
                events := events w @
                  [SpanStart (c_tracer c) (next_span w) (Some ctx) ''sql-ping'',
                   SetAttribute (next_span w) ''component'' (AString ''database/sql''),
                   Native (N_Conn_Ping (ctx\<lparr>ctx_span := Some (next_span w)\<rparr>)) err] @
                  (case err of None \<Rightarrow> []
                   | Some e \<Rightarrow>
                       [RecordError (next_span w) (ctx\<lparr>ctx_span := Some (next_span w)\<rparr>) e]) @
                  [SpanEnd (next_span w)],
                next_span := Suc (next_span w)\<rparr>))"
proof (intro conjI impI allI)
  assume "conn_Ping (c_parent c) = None"
  then show "wrappedConn_Ping c ctx w = (Returns None, w)" by (rule ping_absent)
next
  fix pinger err s'
  assume "conn_Ping (c_parent c) = Some pinger \<and>
      pinger (ctx\<lparr>ctx_span := Some (next_span w)\<rparr>) (store w) = (err, s')"
  then show "wrappedConn_Ping c ctx w =
        (Returns err, w\<lparr>store := s',
                events := events w @
                  [SpanStart (c_tracer c) (next_span w) (Some ctx) ''sql-ping'',
                   SetAttribute (next_span w) ''component'' (AString ''database/sql''),
                   Native (N_Conn_Ping (ctx\<lparr>ctx_span := Some (next_span w)\<rparr>)) err] @
                  (case err of None \<Rightarrow> []
                   | Some e \<Rightarrow>
                       [RecordError (next_span w) (ctx\<lparr>ctx_span := Some (next_span w)\<rparr>) e]) @
                  [SpanEnd (next_span w)],
                next_span := Suc (next_span w)\<rparr>)"
    by (elim conjE) (erule (1) ping_present)
qed

theorem wrappedConn_Ping_spec_witness:
  "wrappedConn_Ping \<lparr>c_tracer = Tracer ''t'', c_parent = mock_conn\<rparr> background w0 = (Returns None, w0) \<and>
   wrappedConn_Ping \<lparr>c_tracer = Tracer ''t'', c_parent = mock_conn_ctx\<rparr> background w0 =
     (Returns (Some (DriverError ''bad connection'')),
      \<lparr>store = [],
       events = [SpanStart (Tracer ''t'') 0 (Some background) ''sql-ping'',
                 SetAttribute 0 ''component'' (AString ''database/sql''),
                 Native (N_Conn_Ping (background\<lparr>ctx_span := Some 0\<rparr>))
                   (Some (DriverError ''bad connection'')),
                 RecordError 0 (background\<lparr>ctx_span := Some 0\<rparr>) (DriverError ''bad connection''),
                 SpanEnd 0],
       next_span = Suc 0\<rparr>)"
proof -
  let ?c1 = "\<lparr>c_tracer = Tracer ''t'', c_parent = mock_conn\<rparr>"
  let ?c2 = "\<lparr>c_tracer = Tracer ''t'', c_parent = mock_conn_ctx\<rparr>"
  have a: "conn_Ping (c_parent ?c1) = None" by (simp add: mock_conn_def)
  have b: "conn_Ping (c_parent ?c2) = Some (\<lambda>ctx s. (Some (DriverError ''bad connection''), s))"
    by (simp add: mock_conn_ctx_def)
  from wrappedConn_Ping_spec [where c = ?c1 and ctx = background and w = w0] a
  have 1: "wrappedConn_Ping ?c1 background w0 = (Returns None, w0)" by blast
  from wrappedConn_Ping_spec [where c = ?c2 and ctx = background and w = w0] b
  have 2: "wrappedConn_Ping ?c2 background w0 =
     (Returns (Some (DriverError ''bad connection'')),
      w0\<lparr>store := store w0,
                events := events w0 @
                  [SpanStart (c_tracer ?c2) (next_span w0) (Some background) ''sql-ping'',
                   SetAttribute (next_span w0) ''component'' (AString ''database/sql''),
                   Native (N_Conn_Ping (background\<lparr>ctx_span := Some (next_span w0)\<rparr>)) (Some (DriverError ''bad connection''))] @
                  (case Some (DriverError ''bad connection'') of None \<Rightarrow> []
                   | Some e \<Rightarrow>
                       [RecordError (next_span w0) (background\<lparr>ctx_span := Some (next_span w0)\<rparr>) e]) @
                  [SpanEnd (next_span w0)],
                next_span := Suc (next_span w0)\<rparr>)"
    by blast
  show ?thesis using 1 2 by (simp add: w0_def)
qed

section \<open>Legacy Exec and Query of the connection\<close>

text \<open>
  C8. The legacy \<open>Exec\<close> and \<open>Query\<close> of the connection facade start no span. When the
  wrapped connection does not implement \<open>driver.Execer\<close> (\<open>driver.Queryer\<close>) the call
  returns \<open>driver.ErrSkip\<close> and leaves the world as it was, so no native method is called.
  When it does, the native method is called once with the same query and arguments; its
  error is returned as it is, and its result (row cursor) is returned inside a result
  (row cursor) facade with the connection's tracer and no context.
\<close>

theorem wrappedConn_legacy_Exec_Query:
  "(conn_Exec (c_parent c) = None \<longrightarrow> wrappedConn_Exec c q args w = (Inl ErrSkip, w)) \<and>
   (\<forall>execer r s'.
      conn_Exec (c_parent c) = Some execer \<and> execer q args (store w) = (r, s') \<longrightarrow>
      wrappedConn_Exec c q args w =
        (map_sum id (\<lambda>res. \<lparr>r_tracer = c_tracer c, r_ctx = None, r_parent = res\<rparr>) r,
         w\<lparr>store := s', events := events w @ [Native (N_Conn_Exec q args) (sum_err r)]\<rparr>)) \<and>
   (conn_Query (c_parent c) = None \<longrightarrow> wrappedConn_Query c q args w = (Inl ErrSkip, w)) \<and>
   (\<forall>queryer r s'.
      conn_Query (c_parent c) = Some queryer \<and> queryer q args (store w) = (r, s') \<longrightarrow>
      wrappedConn_Query c q args w =
        (map_sum id (\<lambda>rows. \<lparr>rw_tracer = c_tracer c, rw_ctx = None, rw_parent = rows\<rparr>) r,
         w\<lparr>store := s', events := events w @ [Native (N_Conn_Query q args) (sum_err r)]\<rparr>)) \<and>
   span_starts (new_events w (snd (wrappedConn_Exec c q args w))) = 0 \<and>
   span_starts (new_events w (snd (wrappedConn_Query c q args w))) = 0"
proof (intro conjI impI allI)
  assume "conn_Exec (c_parent c) = None"
  then show "wrappedConn_Exec c q args w = (Inl ErrSkip, w)" by (rule conn_Exec_absent)
next
  fix execer r s'
  assume "conn_Exec (c_parent c) = Some execer \<and> execer q args (store w) = (r, s')"
  then show "wrappedConn_Exec c q args w =
        (map_sum id (\<lambda>res. \<lparr>r_tracer = c_tracer c, r_ctx = None, r_parent = res\<rparr>) r,
         w\<lparr>store := s', events := events w @ [Native (N_Conn_Exec q args) (sum_err r)]\<rparr>)"
    by (elim conjE) (erule (1) conn_Exec_present)
next
  assume "conn_Query (c_parent c) = None"
  then show "wrappedConn_Query c q args w = (Inl ErrSkip, w)" by (rule conn_Query_absent)
next
  fix queryer r s'
  assume "conn_Query (c_parent c) = Some queryer \<and> queryer q args (store w) = (r, s')"
  then show "wrappedConn_Query c q args w =
        (map_sum id (\<lambda>rows. \<lparr>rw_tracer = c_tracer c, rw_ctx = None, rw_parent = rows\<rparr>) r,
         w\<lparr>store := s', events := events w @ [Native (N_Conn_Query q args) (sum_err r)]\<rparr>)"
    by (elim conjE) (erule (1) conn_Query_present)
next
  show "span_starts (new_events w (snd (wrappedConn_Exec c q args w))) = 0"
  proof (cases "conn_Exec (c_parent c)")
    case None
    then show ?thesis by (simp add: conn_Exec_absent new_events_def span_starts_def)
  next
    case (Some execer)
    obtain r s' where "execer q args (store w) = (r, s')" by (cases "execer q args (store w)")
    with Some show ?thesis by (simp add: conn_Exec_present span_starts_def)
  qed
next
  show "span_starts (new_events w (snd (wrappedConn_Query c q args w))) = 0"
  proof (cases "conn_Query (c_parent c)")
    case None
    then show ?thesis by (simp add: conn_Query_absent new_events_def span_starts_def)
  next
    case (Some queryer)
    obtain r s' where "queryer q args (store w) = (r, s')" by (cases "queryer q args (store w)")
    with Some show ?thesis by (simp add: conn_Query_present span_starts_def)
  qed
qed

theorem wrappedConn_legacy_Exec_Query_witness:
  "wrappedConn_Exec traced_conn ''DELETE FROM t'' [] w0 = (Inl ErrSkip, w0) \<and>
   wrappedConn_Query traced_conn ''SELECT 1'' [] w0 = (Inl ErrSkip, w0) \<and>
   wrappedConn_Exec traced_conn_ctx ''DELETE FROM t'' [] w0 =
     (Inr \<lparr>r_tracer = Tracer ''t'', r_ctx = None, r_parent = mock_result\<rparr>,
      \<lparr>store = [''DELETE FROM t''], events = [Native (N_Conn_Exec ''DELETE FROM t'' []) None],
       next_span = 0\<rparr>) \<and>
   wrappedConn_Query traced_conn_ctx ''SELECT 1'' [] w0 =
     (Inl (DriverError ''syntax error''),
      \<lparr>store = [],
       events = [Native (N_Conn_Query ''SELECT 1'' []) (Some (DriverError ''syntax error''))],
       next_span = 0\<rparr>)"
  using wrappedConn_legacy_Exec_Query
          [where c = traced_conn and w = w0 and args = "[]" and q = "''DELETE FROM t''"]
        wrappedConn_legacy_Exec_Query
          [where c = traced_conn and w = w0 and args = "[]" and q = "''SELECT 1''"]
        wrappedConn_legacy_Exec_Query
          [where c = traced_conn_ctx and w = w0 and args = "[]" and q = "''DELETE FROM t''"]
        wrappedConn_legacy_Exec_Query
          [where c = traced_conn_ctx and w = w0 and args = "[]" and q = "''SELECT 1''"]
  by (simp add: traced_conn_def traced_conn_ctx_def mock_conn_def mock_conn_ctx_def w0_def
      sum_err_def)

section \<open>A connection without any direct execution capability\<close>

text \<open>
  C10. When the wrapped connection implements neither \<open>driver.ExecerContext\<close> nor
  \<open>driver.Execer\<close>, \<open>ExecContext\<close> with only unnamed arguments and a context that is not
  cancelled returns \<open>driver.ErrSkip\<close>; the events added are exactly the span
  \<open>sql-conn-exec\<close> with its attributes, \<open>ErrSkip\<close> recorded on it, and its end: no native
  method is called and the store is unchanged. \<open>QueryContext\<close> does the same with
  \<open>driver.QueryerContext\<close>, \<open>driver.Queryer\<close> and the span \<open>sql-conn-query\<close>.
\<close>

theorem conn_without_exec_capabilities_skips:
  "(conn_ExecContext (c_parent c) = None \<and> conn_Exec (c_parent c) = None \<and>
    (\<forall>a\<in>set args. nv_Name a = []) \<and> ctx_err ctx = None \<longrightarrow>
    wrappedConn_ExecContext c ctx q args w =
      (Returns (Inl ErrSkip),
       w\<lparr>events := events w @
            [SpanStart (c_tracer c) (next_span w) (Some ctx) ''sql-conn-exec'',
             SetAttribute (next_span w) ''component'' (AString ''database/sql''),
             SetAttribute (next_span w) ''query'' (AString q),
             SetAttribute (next_span w) ''args'' (APrettyNamed args),
             RecordError (next_span w) (ctx\<lparr>ctx_span := Some (next_span w)\<rparr>) ErrSkip,
             SpanEnd (next_span w)],
          next_span := Suc (next_span w)\<rparr>)) \<and>
   (conn_QueryContext (c_parent c) = None \<and> conn_Query (c_parent c) = None \<and>
    (\<forall>a\<in>set args. nv_Name a = []) \<and> ctx_err ctx = None \<longrightarrow>
    wrappedConn_QueryContext c ctx q args w =
      (Returns (Inl ErrSkip),
       w\<lparr>events := events w @
            [SpanStart (c_tracer c) (next_span w) (Some ctx) ''sql-conn-query'',
             SetAttribute (next_span w) ''component'' (AString ''database/sql''),
             SetAttribute (next_span w) ''query'' (AString q),
             SetAttribute (next_span w) ''args'' (APrettyNamed args),
             RecordError (next_span w) (ctx\<lparr>ctx_span := Some (next_span w)\<rparr>) ErrSkip,
             SpanEnd (next_span w)],
          next_span := Suc (next_span w)\<rparr>))"
proof (intro conjI impI)
  assume h: "conn_ExecContext (c_parent c) = None \<and> conn_Exec (c_parent c) = None \<and>
    (\<forall>a\<in>set args. nv_Name a = []) \<and> ctx_err ctx = None"
  then have "namedValueToValue args = Inr (map nv_Value args)"
    by (simp add: namedValueToValue_unnamed)
  with h show "wrappedConn_ExecContext c ctx q args w =
      (Returns (Inl ErrSkip),
       w\<lparr>events := events w @
            [SpanStart (c_tracer c) (next_span w) (Some ctx) ''sql-conn-exec'',
             SetAttribute (next_span w) ''component'' (AString ''database/sql''),
             SetAttribute (next_span w) ''query'' (AString q),
             SetAttribute (next_span w) ''args'' (APrettyNamed args),
             RecordError (next_span w) (ctx\<lparr>ctx_span := Some (next_span w)\<rparr>) ErrSkip,
             SpanEnd (next_span w)],
          next_span := Suc (next_span w)\<rparr>)"
    by (simp add: conn_ExecContext_fallback_skip failed_span_def)
next
  assume h: "conn_QueryContext (c_parent c) = None \<and> conn_Query (c_parent c) = None \<and>
    (\<forall>a\<in>set args. nv_Name a = []) \<and> ctx_err ctx = None"
  then have "namedValueToValue args = Inr (map nv_Value args)"
    by (simp add: namedValueToValue_unnamed)
  with h show "wrappedConn_QueryContext c ctx q args w =
      (Returns (Inl ErrSkip),
       w\<lparr>events := events w @
            [SpanStart (c_tracer c) (next_span w) (Some ctx) ''sql-conn-query'',
             SetAttribute (next_span w) ''component'' (AString ''database/sql''),
             SetAttribute (next_span w) ''query'' (AString q),
             SetAttribute (next_span w) ''args'' (APrettyNamed args),
             RecordError (next_span w) (ctx\<lparr>ctx_span := Some (next_span w)\<rparr>) ErrSkip,
             SpanEnd (next_span w)],
          next_span := Suc (next_span w)\<rparr>)"
    by (simp add: conn_QueryContext_fallback_skip failed_span_def)
qed

theorem conn_without_exec_capabilities_skips_witness:
  "wrappedConn_ExecContext traced_conn background ''DELETE FROM t WHERE id = ?''
     [positional (VInt64 7) 1] w0 =
     (Returns (Inl ErrSkip),
      \<lparr>store = [],
       events = [SpanStart (Tracer ''t'') 0 (Some background) ''sql-conn-exec'',
                 SetAttribute 0 ''component'' (AString ''database/sql''),
                 SetAttribute 0 ''query'' (AString ''DELETE FROM t WHERE id = ?''),
                 SetAttribute 0 ''args'' (APrettyNamed [positional (VInt64 7) 1]),
                 RecordError 0 (background\<lparr>ctx_span := Some 0\<rparr>) ErrSkip,
                 SpanEnd 0],
       next_span = Suc 0\<rparr>) \<and>
   fst (wrappedConn_QueryContext traced_conn background ''SELECT 1'' [] w0) =
     Returns (Inl ErrSkip)"
  using conn_without_exec_capabilities_skips
          [where c = traced_conn and ctx = background and w = w0
             and q = "''DELETE FROM t WHERE id = ?''" and args = "[positional (VInt64 7) 1]"]
        conn_without_exec_capabilities_skips
          [where c = traced_conn and ctx = background and w = w0
             and q = "''SELECT 1''" and args = "[]"]
  by (simp add: traced_conn_def mock_conn_def background_def w0_def positional_def)

section \<open>Named parameters on the fallback path\<close>



section \<open>Facts about every traced operation\<close>

lemma Conn_BeginTx_recorded:
  "wrappedConn_BeginTx c ctx opts w = (Returns res, w') \<Longrightarrow> sum_err res = Some e \<Longrightarrow>
   errors_recorded (next_span w) (new_events w w') = [e]"
  by (auto simp: wrappedConn_BeginTx_def frame_defs new_events_def
      errors_recorded_def sum_err_def Let_def split: option.splits sum.splits prod.splits outcome.splits)

lemma Conn_PrepareContext_recorded:
  "wrappedConn_PrepareContext c ctx q w = (Returns res, w') \<Longrightarrow> sum_err res = Some e \<Longrightarrow>
   errors_recorded (next_span w) (new_events w w') = [e]"
  by (auto simp: wrappedConn_PrepareContext_def wrappedConn_Prepare_def frame_defs new_events_def
      errors_recorded_def sum_err_def Let_def split: option.splits sum.splits prod.splits outcome.splits)

lemma Conn_ExecContext_recorded:
  "wrappedConn_ExecContext c ctx q args w = (Returns res, w') \<Longrightarrow> sum_err res = Some e \<Longrightarrow>
   errors_recorded (next_span w) (new_events w w') = [e]"
  by (auto simp: wrappedConn_ExecContext_def wrappedConn_Exec_def frame_defs new_events_def
      errors_recorded_def sum_err_def Let_def split: option.splits sum.splits prod.splits outcome.splits)

lemma Conn_QueryContext_recorded:
  "wrappedConn_QueryContext c ctx q args w = (Returns res, w') \<Longrightarrow> sum_err res = Some e \<Longrightarrow>
   errors_recorded (next_span w) (new_events w w') = [e]"
  by (auto simp: wrappedConn_QueryContext_def wrappedConn_Query_def frame_defs new_events_def
      errors_recorded_def sum_err_def Let_def split: option.splits sum.splits prod.splits outcome.splits)

lemma Conn_Ping_recorded:
  "wrappedConn_Ping c ctx w = (Returns res, w') \<Longrightarrow> id res = Some e \<Longrightarrow>
   errors_recorded (next_span w) (new_events w w') = [e]"
  by (auto simp: wrappedConn_Ping_def frame_defs new_events_def
      errors_recorded_def sum_err_def Let_def split: option.splits sum.splits prod.splits outcome.splits)

lemma Tx_Commit_recorded:
  "wrappedTx_Commit t w = (Returns res, w') \<Longrightarrow> id res = Some e \<Longrightarrow>
   errors_recorded (next_span w) (new_events w w') = [e]"
  by (auto simp: wrappedTx_Commit_def frame_defs new_events_def
      errors_recorded_def sum_err_def Let_def split: option.splits sum.splits prod.splits outcome.splits)

lemma Tx_Rollback_recorded:
  "wrappedTx_Rollback t w = (Returns res, w') \<Longrightarrow> id res = Some e \<Longrightarrow>
   errors_recorded (next_span w) (new_events w w') = [e]"
  by (auto simp: wrappedTx_Rollback_def frame_defs new_events_def
      errors_recorded_def sum_err_def Let_def split: option.splits sum.splits prod.splits outcome.splits)

lemma Stmt_Close_recorded:
  "wrappedStmt_Close s w = (Returns res, w') \<Longrightarrow> id res = Some e \<Longrightarrow>
   errors_recorded (next_span w) (new_events w w') = [e]"
  by (auto simp: wrappedStmt_Close_def frame_defs new_events_def
      errors_recorded_def sum_err_def Let_def split: option.splits sum.splits prod.splits outcome.splits)

lemma Stmt_Exec_recorded:
  "wrappedStmt_Exec s args w = (Returns res, w') \<Longrightarrow> sum_err res = Some e \<Longrightarrow>
   errors_recorded (next_span w) (new_events w w') = [e]"
  by (auto simp: wrappedStmt_Exec_def frame_defs new_events_def
      errors_recorded_def sum_err_def Let_def split: option.splits sum.splits prod.splits outcome.splits)

lemma Stmt_Query_recorded:
  "wrappedStmt_Query s args w = (Returns res, w') \<Longrightarrow> sum_err res = Some e \<Longrightarrow>
   errors_recorded (next_span w) (new_events w w') = [e]"
  by (auto simp: wrappedStmt_Query_def frame_defs new_events_def
      errors_recorded_def sum_err_def Let_def split: option.splits sum.splits prod.splits outcome.splits)

lemma Stmt_ExecContext_recorded:
  "wrappedStmt_ExecContext s ctx args w = (Returns res, w') \<Longrightarrow> sum_err res = Some e \<Longrightarrow>
   errors_recorded (next_span w) (new_events w w') = [e]"
  by (auto simp: wrappedStmt_ExecContext_def wrappedStmt_Exec_def frame_defs new_events_def
      errors_recorded_def sum_err_def Let_def split: option.splits sum.splits prod.splits outcome.splits)

lemma Stmt_QueryContext_recorded:
  "wrappedStmt_QueryContext s ctx args w = (Returns res, w') \<Longrightarrow> sum_err res = Some e \<Longrightarrow>
   errors_recorded (next_span w) (new_events w w') = [e]"
  by (auto simp: wrappedStmt_QueryContext_def wrappedStmt_Query_def frame_defs new_events_def
      errors_recorded_def sum_err_def Let_def split: option.splits sum.splits prod.splits outcome.splits)

lemma Result_LastInsertId_recorded:
  "wrappedResult_LastInsertId r w = (Returns res, w') \<Longrightarrow> snd res = Some e \<Longrightarrow>
   errors_recorded (next_span w) (new_events w w') = [e]"
  by (auto simp: wrappedResult_LastInsertId_def frame_defs new_events_def
      errors_recorded_def sum_err_def Let_def split: option.splits sum.splits prod.splits outcome.splits)

lemma Result_RowsAffected_recorded:
  "wrappedResult_RowsAffected r w = (Returns res, w') \<Longrightarrow> snd res = Some e \<Longrightarrow>
   errors_recorded (next_span w) (new_events w w') = [e]"
  by (auto simp: wrappedResult_RowsAffected_def frame_defs new_events_def
      errors_recorded_def sum_err_def Let_def split: option.splits sum.splits prod.splits outcome.splits)

lemma Rows_Next_recorded:
  "wrappedRows_Next r dest w = (Returns res, w') \<Longrightarrow> snd res = Some e \<Longrightarrow>
   errors_recorded (next_span w) (new_events w w') = [e]"
  by (auto simp: wrappedRows_Next_def frame_defs new_events_def
      errors_recorded_def sum_err_def Let_def split: option.splits sum.splits prod.splits outcome.splits)

lemma Conn_BeginTx_native_errors:
  "wrappedConn_BeginTx c ctx opts w = (out, w') \<Longrightarrow> e \<in> set (native_errors (new_events w w')) \<Longrightarrow>
   map_outcome sum_err out = Returns (Some e)"
  by (auto simp: wrappedConn_BeginTx_def frame_defs new_events_def
      native_errors_def sum_err_def Let_def split: option.splits sum.splits prod.splits outcome.splits)

lemma Conn_PrepareContext_native_errors:
  "wrappedConn_PrepareContext c ctx q w = (out, w') \<Longrightarrow> e \<in> set (native_errors (new_events w w')) \<Longrightarrow>
   map_outcome sum_err out = Returns (Some e)"
  by (auto simp: wrappedConn_PrepareContext_def wrappedConn_Prepare_def frame_defs new_events_def
      native_errors_def sum_err_def Let_def split: option.splits sum.splits prod.splits outcome.splits)

lemma Conn_ExecContext_native_errors:
  "wrappedConn_ExecContext c ctx q args w = (out, w') \<Longrightarrow> e \<in> set (native_errors (new_events w w')) \<Longrightarrow>
   map_outcome sum_err out = Returns (Some e)"
  by (auto simp: wrappedConn_ExecContext_def wrappedConn_Exec_def frame_defs new_events_def
      native_errors_def sum_err_def Let_def split: option.splits sum.splits prod.splits outcome.splits)

lemma Conn_QueryContext_native_errors:
  "wrappedConn_QueryContext c ctx q args w = (out, w') \<Longrightarrow> e \<in> set (native_errors (new_events w w')) \<Longrightarrow>
   map_outcome sum_err out = Returns (Some e)"
  by (auto simp: wrappedConn_QueryContext_def wrappedConn_Query_def frame_defs new_events_def
      native_errors_def sum_err_def Let_def split: option.splits sum.splits prod.splits outcome.splits)

lemma Conn_Ping_native_errors:
  "wrappedConn_Ping c ctx w = (out, w') \<Longrightarrow> e \<in> set (native_errors (new_events w w')) \<Longrightarrow>
   map_outcome id out = Returns (Some e)"
  by (auto simp: wrappedConn_Ping_def frame_defs new_events_def
      native_errors_def sum_err_def Let_def split: option.splits sum.splits prod.splits outcome.splits)

lemma Tx_Commit_native_errors:
  "wrappedTx_Commit t w = (out, w') \<Longrightarrow> e \<in> set (native_errors (new_events w w')) \<Longrightarrow>
   map_outcome id out = Returns (Some e)"
  by (auto simp: wrappedTx_Commit_def frame_defs new_events_def
      native_errors_def sum_err_def Let_def split: option.splits sum.splits prod.splits outcome.splits)

lemma Tx_Rollback_native_errors:
  "wrappedTx_Rollback t w = (out, w') \<Longrightarrow> e \<in> set (native_errors (new_events w w')) \<Longrightarrow>
   map_outcome id out = Returns (Some e)"
  by (auto simp: wrappedTx_Rollback_def frame_defs new_events_def
      native_errors_def sum_err_def Let_def split: option.splits sum.splits prod.splits outcome.splits)

lemma Stmt_Close_native_errors:
  "wrappedStmt_Close s w = (out, w') \<Longrightarrow> e \<in> set (native_errors (new_events w w')) \<Longrightarrow>
   map_outcome id out = Returns (Some e)"
  by (auto simp: wrappedStmt_Close_def frame_defs new_events_def
      native_errors_def sum_err_def Let_def split: option.splits sum.splits prod.splits outcome.splits)

lemma Stmt_Exec_native_errors:
  "wrappedStmt_Exec s args w = (out, w') \<Longrightarrow> e \<in> set (native_errors (new_events w w')) \<Longrightarrow>
   map_outcome sum_err out = Returns (Some e)"
  by (auto simp: wrappedStmt_Exec_def frame_defs new_events_def
      native_errors_def sum_err_def Let_def split: option.splits sum.splits prod.splits outcome.splits)

lemma Stmt_Query_native_errors:
  "wrappedStmt_Query s args w = (out, w') \<Longrightarrow> e \<in> set (native_errors (new_events w w')) \<Longrightarrow>
   map_outcome sum_err out = Returns (Some e)"
  by (auto simp: wrappedStmt_Query_def frame_defs new_events_def
      native_errors_def sum_err_def Let_def split: option.splits sum.splits prod.splits outcome.splits)

lemma Stmt_ExecContext_native_errors:
  "wrappedStmt_ExecContext s ctx args w = (out, w') \<Longrightarrow> e \<in> set (native_errors (new_events w w')) \<Longrightarrow>
   map_outcome sum_err out = Returns (Some e)"
  by (auto simp: wrappedStmt_ExecContext_def wrappedStmt_Exec_def frame_defs new_events_def
      native_errors_def sum_err_def Let_def split: option.splits sum.splits prod.splits outcome.splits)

lemma Stmt_QueryContext_native_errors:
  "wrappedStmt_QueryContext s ctx args w = (out, w') \<Longrightarrow> e \<in> set (native_errors (new_events w w')) \<Longrightarrow>
   map_outcome sum_err out = Returns (Some e)"
  by (auto simp: wrappedStmt_QueryContext_def wrappedStmt_Query_def frame_defs new_events_def
      native_errors_def sum_err_def Let_def split: option.splits sum.splits prod.splits outcome.splits)

lemma Result_LastInsertId_native_errors:
  "wrappedResult_LastInsertId r w = (out, w') \<Longrightarrow> e \<in> set (native_errors (new_events w w')) \<Longrightarrow>
   map_outcome snd out = Returns (Some e)"
  by (auto simp: wrappedResult_LastInsertId_def frame_defs new_events_def
      native_errors_def sum_err_def Let_def split: option.splits sum.splits prod.splits outcome.splits)

lemma Result_RowsAffected_native_errors:
  "wrappedResult_RowsAffected r w = (out, w') \<Longrightarrow> e \<in> set (native_errors (new_events w w')) \<Longrightarrow>
   map_outcome snd out = Returns (Some e)"
  by (auto simp: wrappedResult_RowsAffected_def frame_defs new_events_def
      native_errors_def sum_err_def Let_def split: option.splits sum.splits prod.splits outcome.splits)

lemma Rows_Next_native_errors:
  "wrappedRows_Next r dest w = (out, w') \<Longrightarrow> e \<in> set (native_errors (new_events w w')) \<Longrightarrow>
   map_outcome snd out = Returns (Some e)"
  by (auto simp: wrappedRows_Next_def frame_defs new_events_def
      native_errors_def sum_err_def Let_def split: option.splits sum.splits prod.splits outcome.splits)

lemma Conn_BeginTx_balanced:
  "wrappedConn_BeginTx c ctx opts w = (out, w') \<Longrightarrow>
   span_starts (new_events w w') = span_ends (new_events w w')"
  by (auto simp: wrappedConn_BeginTx_def frame_defs new_events_def
      span_starts_def span_ends_def Let_def split: option.splits sum.splits prod.splits outcome.splits)

lemma Conn_PrepareContext_balanced:
  "wrappedConn_PrepareContext c ctx q w = (out, w') \<Longrightarrow>
   span_starts (new_events w w') = span_ends (new_events w w')"
  by (auto simp: wrappedConn_PrepareContext_def wrappedConn_Prepare_def frame_defs new_events_def
      span_starts_def span_ends_def Let_def split: option.splits sum.splits prod.splits outcome.splits)

lemma Conn_ExecContext_balanced:
  "wrappedConn_ExecContext c ctx q args w = (out, w') \<Longrightarrow>
   span_starts (new_events w w') = span_ends (new_events w w')"
  by (auto simp: wrappedConn_ExecContext_def wrappedConn_Exec_def frame_defs new_events_def
      span_starts_def span_ends_def Let_def split: option.splits sum.splits prod.splits outcome.splits)

lemma Conn_QueryContext_balanced:
  "wrappedConn_QueryContext c ctx q args w = (out, w') \<Longrightarrow>
   span_starts (new_events w w') = span_ends (new_events w w')"
  by (auto simp: wrappedConn_QueryContext_def wrappedConn_Query_def frame_defs new_events_def
      span_starts_def span_ends_def Let_def split: option.splits sum.splits prod.splits outcome.splits)

lemma Conn_Ping_balanced:
  "wrappedConn_Ping c ctx w = (out, w') \<Longrightarrow>
   span_starts (new_events w w') = span_ends (new_events w w')"
  by (auto simp: wrappedConn_Ping_def frame_defs new_events_def
      span_starts_def span_ends_def Let_def split: option.splits sum.splits prod.splits outcome.splits)

lemma Tx_Commit_balanced:
  "wrappedTx_Commit t w = (out, w') \<Longrightarrow>
   span_starts (new_events w w') = span_ends (new_events w w')"
  by (auto simp: wrappedTx_Commit_def frame_defs new_events_def
      span_starts_def span_ends_def Let_def split: option.splits sum.splits prod.splits outcome.splits)

lemma Tx_Rollback_balanced:
  "wrappedTx_Rollback t w = (out, w') \<Longrightarrow>
   span_starts (new_events w w') = span_ends (new_events w w')"
  by (auto simp: wrappedTx_Rollback_def frame_defs new_events_def
      span_starts_def span_ends_def Let_def split: option.splits sum.splits prod.splits outcome.splits)

lemma Stmt_Close_balanced:
  "wrappedStmt_Close s w = (out, w') \<Longrightarrow>
   span_starts (new_events w w') = span_ends (new_events w w')"
  by (auto simp: wrappedStmt_Close_def frame_defs new_events_def
      span_starts_def span_ends_def Let_def split: option.splits sum.splits prod.splits outcome.splits)

lemma Stmt_Exec_balanced:
  "wrappedStmt_Exec s args w = (out, w') \<Longrightarrow>
   span_starts (new_events w w') = span_ends (new_events w w')"
  by (auto simp: wrappedStmt_Exec_def frame_defs new_events_def
      span_starts_def span_ends_def Let_def split: option.splits sum.splits prod.splits outcome.splits)

lemma Stmt_Query_balanced:
  "wrappedStmt_Query s args w = (out, w') \<Longrightarrow>
   span_starts (new_events w w') = span_ends (new_events w w')"
  by (auto simp: wrappedStmt_Query_def frame_defs new_events_def
      span_starts_def span_ends_def Let_def split: option.splits sum.splits prod.splits outcome.splits)

lemma Stmt_ExecContext_balanced:
  "wrappedStmt_ExecContext s ctx args w = (out, w') \<Longrightarrow>
   span_starts (new_events w w') = span_ends (new_events w w')"
  by (auto simp: wrappedStmt_ExecContext_def wrappedStmt_Exec_def frame_defs new_events_def
      span_starts_def span_ends_def Let_def split: option.splits sum.splits prod.splits outcome.splits)

lemma Stmt_QueryContext_balanced:
  "wrappedStmt_QueryContext s ctx args w = (out, w') \<Longrightarrow>
   span_starts (new_events w w') = span_ends (new_events w w')"
  by (auto simp: wrappedStmt_QueryContext_def wrappedStmt_Query_def frame_defs new_events_def
      span_starts_def span_ends_def Let_def split: option.splits sum.splits prod.splits outcome.splits)

lemma Result_LastInsertId_balanced:
  "wrappedResult_LastInsertId r w = (out, w') \<Longrightarrow>
   span_starts (new_events w w') = span_ends (new_events w w')"
  by (auto simp: wrappedResult_LastInsertId_def frame_defs new_events_def
      span_starts_def span_ends_def Let_def split: option.splits sum.splits prod.splits outcome.splits)

lemma Result_RowsAffected_balanced:
  "wrappedResult_RowsAffected r w = (out, w') \<Longrightarrow>
   span_starts (new_events w w') = span_ends (new_events w w')"
  by (auto simp: wrappedResult_RowsAffected_def frame_defs new_events_def
      span_starts_def span_ends_def Let_def split: option.splits sum.splits prod.splits outcome.splits)

lemma Rows_Next_balanced:
  "wrappedRows_Next r dest w = (out, w') \<Longrightarrow>
   span_starts (new_events w w') = span_ends (new_events w w')"
  by (auto simp: wrappedRows_Next_def frame_defs new_events_def
      span_starts_def span_ends_def Let_def split: option.splits sum.splits prod.splits outcome.splits)

lemma Conn_BeginTx_span_count:
  "wrappedConn_BeginTx c ctx opts w = (out, w') \<Longrightarrow>
   span_starts (new_events w w') = spans_started (Call_Conn_BeginTx c ctx opts)"
  by (auto simp: wrappedConn_BeginTx_def frame_defs new_events_def one_unless_nil_def
      span_starts_def namedValueToValue_cases Let_def
      split: option.splits sum.splits prod.splits outcome.splits if_splits)

lemma Conn_PrepareContext_span_count:
  "wrappedConn_PrepareContext c ctx q w = (out, w') \<Longrightarrow>
   span_starts (new_events w w') = spans_started (Call_Conn_PrepareContext c ctx q)"
  by (auto simp: wrappedConn_PrepareContext_def wrappedConn_Prepare_def frame_defs new_events_def one_unless_nil_def
      span_starts_def namedValueToValue_cases Let_def
      split: option.splits sum.splits prod.splits outcome.splits if_splits)

lemma Conn_ExecContext_span_count:
  "wrappedConn_ExecContext c ctx q args w = (out, w') \<Longrightarrow>
   span_starts (new_events w w') = spans_started (Call_Conn_ExecContext c ctx q args)"
  by (auto simp: wrappedConn_ExecContext_def wrappedConn_Exec_def frame_defs new_events_def one_unless_nil_def
      span_starts_def namedValueToValue_cases Let_def
      split: option.splits sum.splits prod.splits outcome.splits if_splits)

lemma Conn_QueryContext_span_count:
  "wrappedConn_QueryContext c ctx q args w = (out, w') \<Longrightarrow>
   span_starts (new_events w w') = spans_started (Call_Conn_QueryContext c ctx q args)"
  by (auto simp: wrappedConn_QueryContext_def wrappedConn_Query_def frame_defs new_events_def one_unless_nil_def
      span_starts_def namedValueToValue_cases Let_def
      split: option.splits sum.splits prod.splits outcome.splits if_splits)

lemma Conn_Ping_span_count:
  "wrappedConn_Ping c ctx w = (out, w') \<Longrightarrow>
   span_starts (new_events w w') = spans_started (Call_Conn_Ping c ctx)"
  by (auto simp: wrappedConn_Ping_def frame_defs new_events_def one_unless_nil_def
      span_starts_def namedValueToValue_cases Let_def
      split: option.splits sum.splits prod.splits outcome.splits if_splits)

lemma Tx_Commit_span_count:
  "wrappedTx_Commit t w = (out, w') \<Longrightarrow>
   span_starts (new_events w w') = spans_started (Call_Tx_Commit t)"
  by (auto simp: wrappedTx_Commit_def frame_defs new_events_def one_unless_nil_def
      span_starts_def namedValueToValue_cases Let_def
      split: option.splits sum.splits prod.splits outcome.splits if_splits)

lemma Tx_Rollback_span_count:
  "wrappedTx_Rollback t w = (out, w') \<Longrightarrow>
   span_starts (new_events w w') = spans_started (Call_Tx_Rollback t)"
  by (auto simp: wrappedTx_Rollback_def frame_defs new_events_def one_unless_nil_def
      span_starts_def namedValueToValue_cases Let_def
      split: option.splits sum.splits prod.splits outcome.splits if_splits)

lemma Stmt_Close_span_count:
  "wrappedStmt_Close s w = (out, w') \<Longrightarrow>
   span_starts (new_events w w') = spans_started (Call_Stmt_Close s)"
  by (auto simp: wrappedStmt_Close_def frame_defs new_events_def one_unless_nil_def
      span_starts_def namedValueToValue_cases Let_def
      split: option.splits sum.splits prod.splits outcome.splits if_splits)

lemma Stmt_Exec_span_count:
  "wrappedStmt_Exec s args w = (out, w') \<Longrightarrow>
   span_starts (new_events w w') = spans_started (Call_Stmt_Exec s args)"
  by (auto simp: wrappedStmt_Exec_def frame_defs new_events_def one_unless_nil_def
      span_starts_def namedValueToValue_cases Let_def
      split: option.splits sum.splits prod.splits outcome.splits if_splits)

lemma Stmt_Query_span_count:
  "wrappedStmt_Query s args w = (out, w') \<Longrightarrow>
   span_starts (new_events w w') = spans_started (Call_Stmt_Query s args)"
  by (auto simp: wrappedStmt_Query_def frame_defs new_events_def one_unless_nil_def
      span_starts_def namedValueToValue_cases Let_def
      split: option.splits sum.splits prod.splits outcome.splits if_splits)

lemma Stmt_ExecContext_span_count:
  "wrappedStmt_ExecContext s ctx args w = (out, w') \<Longrightarrow>
   span_starts (new_events w w') = spans_started (Call_Stmt_ExecContext s ctx args)"
  by (auto simp: wrappedStmt_ExecContext_def wrappedStmt_Exec_def frame_defs new_events_def one_unless_nil_def
      span_starts_def namedValueToValue_cases Let_def
      split: option.splits sum.splits prod.splits outcome.splits if_splits)

lemma Stmt_QueryContext_span_count:
  "wrappedStmt_QueryContext s ctx args w = (out, w') \<Longrightarrow>
   span_starts (new_events w w') = spans_started (Call_Stmt_QueryContext s ctx args)"
  by (auto simp: wrappedStmt_QueryContext_def wrappedStmt_Query_def frame_defs new_events_def one_unless_nil_def
      span_starts_def namedValueToValue_cases Let_def
      split: option.splits sum.splits prod.splits outcome.splits if_splits)

lemma Result_LastInsertId_span_count:
  "wrappedResult_LastInsertId r w = (out, w') \<Longrightarrow>
   span_starts (new_events w w') = spans_started (Call_Result_LastInsertId r)"
  by (auto simp: wrappedResult_LastInsertId_def frame_defs new_events_def one_unless_nil_def
      span_starts_def namedValueToValue_cases Let_def
      split: option.splits sum.splits prod.splits outcome.splits if_splits)

lemma Result_RowsAffected_span_count:
  "wrappedResult_RowsAffected r w = (out, w') \<Longrightarrow>
   span_starts (new_events w w') = spans_started (Call_Result_RowsAffected r)"
  by (auto simp: wrappedResult_RowsAffected_def frame_defs new_events_def one_unless_nil_def
      span_starts_def namedValueToValue_cases Let_def
      split: option.splits sum.splits prod.splits outcome.splits if_splits)

lemma Rows_Next_span_count:
  "wrappedRows_Next r dest w = (out, w') \<Longrightarrow>
   span_starts (new_events w w') = spans_started (Call_Rows_Next r dest)"
  by (auto simp: wrappedRows_Next_def frame_defs new_events_def one_unless_nil_def
      span_starts_def namedValueToValue_cases Let_def
      split: option.splits sum.splits prod.splits outcome.splits if_splits)

lemmas recorded_lemmas = Conn_BeginTx_recorded Conn_PrepareContext_recorded Conn_ExecContext_recorded Conn_QueryContext_recorded Conn_Ping_recorded Tx_Commit_recorded Tx_Rollback_recorded Stmt_Close_recorded Stmt_Exec_recorded Stmt_Query_recorded Stmt_ExecContext_recorded Stmt_QueryContext_recorded Result_LastInsertId_recorded Result_RowsAffected_recorded Rows_Next_recorded

lemmas native_errors_lemmas = Conn_BeginTx_native_errors Conn_PrepareContext_native_errors Conn_ExecContext_native_errors Conn_QueryContext_native_errors Conn_Ping_native_errors Tx_Commit_native_errors Tx_Rollback_native_errors Stmt_Close_native_errors Stmt_Exec_native_errors Stmt_Query_native_errors Stmt_ExecContext_native_errors Stmt_QueryContext_native_errors Result_LastInsertId_native_errors Result_RowsAffected_native_errors Rows_Next_native_errors

lemmas balanced_lemmas = Conn_BeginTx_balanced Conn_PrepareContext_balanced Conn_ExecContext_balanced Conn_QueryContext_balanced Conn_Ping_balanced Tx_Commit_balanced Tx_Rollback_balanced Stmt_Close_balanced Stmt_Exec_balanced Stmt_Query_balanced Stmt_ExecContext_balanced Stmt_QueryContext_balanced Result_LastInsertId_balanced Result_RowsAffected_balanced Rows_Next_balanced

lemmas span_count_lemmas = Conn_BeginTx_span_count Conn_PrepareContext_span_count Conn_ExecContext_span_count Conn_QueryContext_span_count Conn_Ping_span_count Tx_Commit_span_count Tx_Rollback_span_count Stmt_Close_span_count Stmt_Exec_span_count Stmt_Query_span_count Stmt_ExecContext_span_count Stmt_QueryContext_span_count Result_LastInsertId_span_count Result_RowsAffected_span_count Rows_Next_span_count

lemma returning_eq:
  "returning errf (m w) = (out, w') \<longleftrightarrow>
     (\<exists>oc. m w = (oc, w') \<and> out = map_outcome errf oc)"
  by (cases "m w") (auto simp: returning_def split: outcome.splits)

lemma invoke_recorded:
  "invoke i w = (Returns (Some e), w') \<Longrightarrow>
   errors_recorded (next_span w) (new_events w w') = [e]"
proof -
  have *: "\<And>errf oc. Returns (Some e) = map_outcome errf oc \<Longrightarrow>
             \<exists>res. oc = Returns res \<and> errf res = Some e"
    subgoal for errf oc by (cases oc) auto
    done
  assume "invoke i w = (Returns (Some e), w')"
  then show ?thesis
    by (cases i) (auto simp: returning_eq dest!: * dest: recorded_lemmas)
qed

lemma invoke_native_errors:
  "invoke i w = (out, w') \<Longrightarrow> e \<in> set (native_errors (new_events w w')) \<Longrightarrow>
   out = Returns (Some e)"
  by (cases i) (auto simp: returning_eq dest: native_errors_lemmas)

lemma invoke_balanced:
  "invoke i w = (out, w') \<Longrightarrow> span_starts (new_events w w') = span_ends (new_events w w')"
  by (cases i) (auto simp: returning_eq dest: balanced_lemmas)

lemma invoke_span_count:
  "invoke i w = (out, w') \<Longrightarrow> span_starts (new_events w w') = spans_started i"
  by (cases i) (auto simp: returning_eq dest: span_count_lemmas)

text \<open>
  C5. For every traced operation that returns an error, exactly that error is recorded
  on the span the operation started, once; and every error a native method returned
  during the operation is the error the operation returns: it is not altered, wrapped or
  dropped.
\<close>

theorem recorded_error_is_returned_error:
  "invoke i w = (out, w') \<Longrightarrow>
     (\<forall>e. out = Returns (Some e) \<longrightarrow>
        errors_recorded (next_span w) (new_events w w') = [e]) \<and>
     (\<forall>e\<in>set (native_errors (new_events w w')). out = Returns (Some e))"
proof (intro conjI allI impI ballI)
  fix e
  assume "invoke i w = (out, w')" and "out = Returns (Some e)"
  then show "errors_recorded (next_span w) (new_events w w') = [e]"
    by (simp add: invoke_recorded)
next
  fix e
  assume "invoke i w = (out, w')" and "e \<in> set (native_errors (new_events w w'))"
  then show "out = Returns (Some e)" by (rule invoke_native_errors)
qed

theorem recorded_error_is_returned_error_witness:
  "invoke (Call_Rows_Next traced_rows []) w0 =
     (Returns (Some (ErrorsNew ''EOF'')),
      \<lparr>store = [],
       events = [SpanStart (Tracer ''t'') 0 (Some background) ''sql-rows-next'',
                 SetAttribute 0 ''component'' (AString ''database/sql''),
                 Native (N_Rows_Next []) (Some (ErrorsNew ''EOF'')),
                 RecordError 0 (background\<lparr>ctx_span := Some 0\<rparr>) (ErrorsNew ''EOF''),
                 SpanEnd 0],
       next_span = Suc 0\<rparr>) \<and>
   errors_recorded 0
     [SpanStart (Tracer ''t'') 0 (Some background) ''sql-rows-next'',
      SetAttribute 0 ''component'' (AString ''database/sql''),
      Native (N_Rows_Next []) (Some (ErrorsNew ''EOF'')),
      RecordError 0 (background\<lparr>ctx_span := Some 0\<rparr>) (ErrorsNew ''EOF''),
      SpanEnd 0] = [ErrorsNew ''EOF'']"
proof -
  let ?w1 = "\<lparr>store = [],
       events = [SpanStart (Tracer ''t'') 0 (Some background) ''sql-rows-next'',
                 SetAttribute 0 ''component'' (AString ''database/sql''),
                 Native (N_Rows_Next []) (Some (ErrorsNew ''EOF'')),
                 RecordError 0 (background\<lparr>ctx_span := Some 0\<rparr>) (ErrorsNew ''EOF''),
                 SpanEnd 0],
       next_span = Suc 0\<rparr> :: string list world"
  have run: "invoke (Call_Rows_Next traced_rows []) w0 =
               (Returns (Some (ErrorsNew ''EOF'')), ?w1)"
    by (simp add: returning_def wrappedRows_Next_def frame_defs traced_rows_def mock_rows_def
        w0_def Let_def)
  have "errors_recorded (next_span w0) (new_events w0 ?w1) = [ErrorsNew ''EOF'']"
    using recorded_error_is_returned_error [OF run] by simp
  then show ?thesis using run by (simp add: w0_def new_events_def)
qed

section \<open>The context of a transaction\<close>

lemma BeginTx_tx_ctx:
  "wrappedConn_BeginTx c ctx opts w = (Returns (Inr tx), w') \<Longrightarrow>
   t_ctx tx = Some (ctx\<lparr>ctx_span := Some (next_span w)\<rparr>)"
  by (auto simp: wrappedConn_BeginTx_def frame_defs Let_def
      split: option.splits sum.splits prod.splits)

lemma Begin_tx_ctx:
  "wrappedConn_Begin c w = (Inr tx, w') \<Longrightarrow> t_ctx tx = None"
  by (auto simp: wrappedConn_Begin_def native_call_def split: sum.splits prod.splits)

lemma BeginTx_first_event:
  "wrappedConn_BeginTx c ctx opts w = (out, w') \<Longrightarrow>
   take 1 (new_events w w') = [SpanStart (c_tracer c) (next_span w) (Some ctx) ''sql-tx-begin'']"
  by (auto simp: wrappedConn_BeginTx_def frame_defs new_events_def Let_def
      split: option.splits sum.splits prod.splits)

lemma Commit_first_event:
  "t_ctx t = Some tc \<Longrightarrow> wrappedTx_Commit t w = (out, w') \<Longrightarrow>
   take 1 (new_events w w') = [SpanStart (t_tracer t) (next_span w) (Some tc) ''sql-tx-commit'']"
  by (auto simp: wrappedTx_Commit_def frame_defs new_events_def Let_def
      split: option.splits sum.splits prod.splits)

lemma Rollback_first_event:
  "t_ctx t = Some tc \<Longrightarrow> wrappedTx_Rollback t w = (out, w') \<Longrightarrow>
   take 1 (new_events w w') = [SpanStart (t_tracer t) (next_span w) (Some tc) ''sql-tx-rollback'']"
  by (auto simp: wrappedTx_Rollback_def frame_defs new_events_def Let_def
      split: option.splits sum.splits prod.splits)

lemma Commit_nil_context:
  "t_ctx t = None \<Longrightarrow> wrappedTx_Commit t w = (Panics, w)"
  by (simp add: wrappedTx_Commit_def nil_context_panics)

lemma Rollback_nil_context:
  "t_ctx t = None \<Longrightarrow> wrappedTx_Rollback t w = (Panics, w)"
  by (simp add: wrappedTx_Rollback_def nil_context_panics)

text \<open>
  C9. The claim asks that \<open>Commit\<close> and \<open>Rollback\<close> start their spans from the context
  captured when the transaction began, whichever method began it. A transaction made by
  \<open>BeginTx\<close> does carry the context the tracer returned for the span \<open>sql-tx-begin\<close>
  (\<open>BeginTx_tx_ctx\<close>), and its \<open>Commit\<close> starts \<open>sql-tx-commit\<close> from it. A transaction
  made by the legacy \<open>Begin\<close> is built without a context: the field stays nil, no
  background context takes its place, and \<open>Commit\<close> and \<open>Rollback\<close> hand the nil context
  to \<open>tracer.Start\<close>, which panics before the native method is called. Run on the mock
  connections: both ways of beginning, then \<open>Commit\<close> and \<open>Rollback\<close>.
\<close>

theorem Commit_after_legacy_Begin_panics:
  "wrappedConn_Begin traced_conn w0 =
     (Inr legacy_tx, \<lparr>store = [''BEGIN''], events = [Native N_Conn_Begin None], next_span = 0\<rparr>) \<and>
   t_ctx legacy_tx = None \<and>
   wrappedTx_Commit legacy_tx
       \<lparr>store = [''BEGIN''], events = [Native N_Conn_Begin None], next_span = 0\<rparr> =
     (Panics, \<lparr>store = [''BEGIN''], events = [Native N_Conn_Begin None], next_span = 0\<rparr>) \<and>
   wrappedTx_Rollback legacy_tx
       \<lparr>store = [''BEGIN''], events = [Native N_Conn_Begin None], next_span = 0\<rparr> =
     (Panics, \<lparr>store = [''BEGIN''], events = [Native N_Conn_Begin None], next_span = 0\<rparr>) \<and>
   wrappedConn_BeginTx traced_conn_ctx background \<lparr>Isolation = 0, ReadOnly = False\<rparr> w0 =
     (Returns (Inr begun_tx),
      \<lparr>store = [''BEGIN''],
       events = [SpanStart (Tracer ''t'') 0 (Some background) ''sql-tx-begin'',
                 SetAttribute 0 ''component'' (AString ''database/sql''),
                 Native (N_Conn_BeginTx (background\<lparr>ctx_span := Some 0\<rparr>)
                           \<lparr>Isolation = 0, ReadOnly = False\<rparr>) None,
                 SpanEnd 0],
       next_span = Suc 0\<rparr>) \<and>
   wrappedTx_Commit begun_tx
       \<lparr>store = [''BEGIN''],
        events = [SpanStart (Tracer ''t'') 0 (Some background) ''sql-tx-begin'',
                  SetAttribute 0 ''component'' (AString ''database/sql''),
                  Native (N_Conn_BeginTx (background\<lparr>ctx_span := Some 0\<rparr>)
                            \<lparr>Isolation = 0, ReadOnly = False\<rparr>) None,
                  SpanEnd 0],
        next_span = Suc 0\<rparr> =
     (Returns None,
      \<lparr>store = [''BEGIN'', ''COMMIT''],
       events = [SpanStart (Tracer ''t'') 0 (Some background) ''sql-tx-begin'',
                 SetAttribute 0 ''component'' (AString ''database/sql''),
                 Native (N_Conn_BeginTx (background\<lparr>ctx_span := Some 0\<rparr>)
                           \<lparr>Isolation = 0, ReadOnly = False\<rparr>) None,
                 SpanEnd 0,
                 SpanStart (Tracer ''t'') 1 (Some (background\<lparr>ctx_span := Some 0\<rparr>))
                   ''sql-tx-commit'',
                 SetAttribute 1 ''component'' (AString ''database/sql''),
                 Native N_Tx_Commit None,
                 SpanEnd 1],
       next_span = 2\<rparr>)"
  by (simp add: wrappedConn_Begin_def wrappedConn_BeginTx_def wrappedTx_Commit_def
      wrappedTx_Rollback_def frame_defs legacy_tx_def begun_tx_def traced_conn_def
      traced_conn_ctx_def mock_conn_def mock_conn_ctx_def mock_tx_def w0_def background_def
      sum_err_def Let_def)

section \<open>The query text of a statement\<close>

lemma Prepare_keeps_query:
  "wrappedConn_Prepare c q w = (Inr s, w') \<Longrightarrow> s_query s = q"
  by (auto simp: wrappedConn_Prepare_def native_call_def split: sum.splits prod.splits)

lemma Prepare_leaves_context_nil:
  "wrappedConn_Prepare c q w = (Inr s, w') \<Longrightarrow> s_ctx s = None"
  by (auto simp: wrappedConn_Prepare_def native_call_def split: sum.splits prod.splits)

lemma PrepareContext_fallback_keeps_query:
  "conn_PrepareContext (c_parent c) = None \<Longrightarrow>
   wrappedConn_PrepareContext c ctx q w = (Returns (Inr s), w') \<Longrightarrow> s_query s = q"
  by (auto simp: wrappedConn_PrepareContext_def wrappedConn_Prepare_def frame_defs Let_def
      split: sum.splits prod.splits)

lemma PrepareContext_fallback_leaves_context_nil:
  "conn_PrepareContext (c_parent c) = None \<Longrightarrow>
   wrappedConn_PrepareContext c ctx q w = (Returns (Inr s), w') \<Longrightarrow> s_ctx s = None"
  by (auto simp: wrappedConn_PrepareContext_def wrappedConn_Prepare_def frame_defs Let_def
      split: sum.splits prod.splits)

lemma PrepareContext_aware_drops_query:
  "conn_PrepareContext (c_parent c) = Some f \<Longrightarrow>
   wrappedConn_PrepareContext c ctx q w = (Returns (Inr s), w') \<Longrightarrow> s_query s = []"
  by (auto simp: wrappedConn_PrepareContext_def frame_defs Let_def
      split: sum.splits prod.splits)

lemma Stmt_Exec_echoes_query:
  "wrappedStmt_Exec s args w = (Returns res, w') \<Longrightarrow>
   span_attr (next_span w) ''query'' (new_events w w') = [AString (s_query s)]"
  by (auto simp: wrappedStmt_Exec_def frame_defs new_events_def span_attr_def Let_def
      split: option.splits sum.splits prod.splits outcome.splits)

lemma Stmt_Query_echoes_query:
  "wrappedStmt_Query s args w = (Returns res, w') \<Longrightarrow>
   span_attr (next_span w) ''query'' (new_events w w') = [AString (s_query s)]"
  by (auto simp: wrappedStmt_Query_def frame_defs new_events_def span_attr_def Let_def
      split: option.splits sum.splits prod.splits outcome.splits)

lemma Stmt_ExecContext_echoes_query:
  "wrappedStmt_ExecContext s ctx args w = (Returns res, w') \<Longrightarrow>
   span_attr (next_span w) ''query'' (new_events w w') = [AString (s_query s)]"
  by (auto simp: wrappedStmt_ExecContext_def wrappedStmt_Exec_def frame_defs new_events_def
      span_attr_def Let_def split: option.splits sum.splits prod.splits outcome.splits)

lemma Stmt_QueryContext_echoes_query:
  "wrappedStmt_QueryContext s ctx args w = (Returns res, w') \<Longrightarrow>
   span_attr (next_span w) ''query'' (new_events w w') = [AString (s_query s)]"
  by (auto simp: wrappedStmt_QueryContext_def wrappedStmt_Query_def frame_defs new_events_def
      span_attr_def Let_def split: option.splits sum.splits prod.splits outcome.splits)

text \<open>
  C2. The claim asks that every span a statement starts carries the query text given at
  preparation, whichever way the statement was prepared. The spans do carry the
  statement's \<open>query\<close> field, and \<open>Prepare\<close> (also as the fallback of \<open>PrepareContext\<close>)
  stores the text there; but \<open>PrepareContext\<close> on a connection with
  \<open>driver.ConnPrepareContext\<close> builds the statement without the field. Run on the mock
  connection: the statement prepared for "INSERT INTO t VALUES (?)" has the empty query,
  and the span \<open>sql-stmt-exec\<close> of its \<open>Exec\<close> carries \<open>query = ""\<close>.
\<close>

theorem PrepareContext_statement_has_no_query:
  "wrappedConn_PrepareContext traced_conn_ctx background ''INSERT INTO t VALUES (?)'' w0 =
     (Returns (Inr prepared_stmt), w_prepared) \<and>
   s_query prepared_stmt = [] \<and>
   wrappedStmt_Exec prepared_stmt [VInt64 7] w_prepared =
     (Returns (Inr \<lparr>r_tracer = Tracer ''t'', r_ctx = Some (background\<lparr>ctx_span := Some 0\<rparr>),
                   r_parent = mock_result\<rparr>),
      w_prepared\<lparr>store := [''INSERT INTO t VALUES (?)''],
         events := events w_prepared @
           [SpanStart (Tracer ''t'') 1 (Some (background\<lparr>ctx_span := Some 0\<rparr>)) ''sql-stmt-exec'',
            SetAttribute 1 ''component'' (AString ''database/sql''),
            SetAttribute 1 ''query'' (AString []),
            SetAttribute 1 ''args'' (APrettyValues [VInt64 7]),
            Native (N_Stmt_Exec [VInt64 7]) None,
            SpanEnd 1],
         next_span := 2\<rparr>)"
  by (simp add: wrappedConn_PrepareContext_def wrappedStmt_Exec_def frame_defs
      prepared_stmt_def w_prepared_def traced_conn_ctx_def mock_conn_ctx_def mock_stmt_def
      w0_def sum_err_def Let_def)

section \<open>The number of spans\<close>

lemma prepared_stmt_ExecContext_run:
  "wrappedStmt_ExecContext prepared_stmt ctx [positional (VInt64 7) 1] w_prepared =
     (Returns (Inr \<lparr>r_tracer = Tracer ''t'', r_ctx = Some (background\<lparr>ctx_span := Some 0\<rparr>),
                   r_parent = mock_result\<rparr>),
      w_prepared\<lparr>store := [''INSERT INTO t VALUES (?)''],
         events := events w_prepared @
           [SpanStart (Tracer ''t'') 1 (Some (background\<lparr>ctx_span := Some 0\<rparr>)) ''sql-stmt-exec'',
            SetAttribute 1 ''component'' (AString ''database/sql''),
            SetAttribute 1 ''query'' (AString []),
            SetAttribute 1 ''args'' (APrettyNamed [positional (VInt64 7) 1]),
            SpanStart (Tracer ''t'') 2 (Some (background\<lparr>ctx_span := Some 0\<rparr>)) ''sql-stmt-exec'',
            SetAttribute 2 ''component'' (AString ''database/sql''),
            SetAttribute 2 ''query'' (AString []),
            SetAttribute 2 ''args'' (APrettyValues [VInt64 7]),
            Native (N_Stmt_Exec [VInt64 7]) None,
            SpanEnd 2,
            SpanEnd 1],
         next_span := 3\<rparr>)"
proof -
  have n: "namedValueToValue [positional (VInt64 7) 1] = Inr [VInt64 7]"
    by (simp add: namedValueToValue_def positional_def)
  show ?thesis
    by (simp add: wrappedStmt_ExecContext_def wrappedStmt_Exec_def frame_defs n
        prepared_stmt_def w_prepared_def mock_stmt_def background_def sum_err_def Let_def)
qed

text \<open>
  C1. The claim asks that no call starts more than one span, also \<open>ExecContext\<close> of a
  statement on the fallback path. Every call ends as many spans as it starts
  (\<open>invoke_balanced\<close>) and starts \<open>spans_started\<close> many (\<open>invoke_span_count\<close>); on that
  fallback path they are two. Run on the mock statement, which has no
  \<open>driver.StmtExecContext\<close>: \<open>ExecContext\<close> starts the span 1, then the legacy \<open>Exec\<close> it
  delegates to starts the span 2, both named \<open>sql-stmt-exec\<close>, around one native call.
\<close>

theorem Stmt_ExecContext_fallback_two_spans:
  "wrappedStmt_ExecContext prepared_stmt background [positional (VInt64 7) 1] w_prepared =
     (Returns (Inr \<lparr>r_tracer = Tracer ''t'', r_ctx = Some (background\<lparr>ctx_span := Some 0\<rparr>),
                   r_parent = mock_result\<rparr>),
      w_prepared\<lparr>store := [''INSERT INTO t VALUES (?)''],
         events := events w_prepared @
           [SpanStart (Tracer ''t'') 1 (Some (background\<lparr>ctx_span := Some 0\<rparr>)) ''sql-stmt-exec'',
            SetAttribute 1 ''component'' (AString ''database/sql''),
            SetAttribute 1 ''query'' (AString []),
            SetAttribute 1 ''args'' (APrettyNamed [positional (VInt64 7) 1]),
            SpanStart (Tracer ''t'') 2 (Some (background\<lparr>ctx_span := Some 0\<rparr>)) ''sql-stmt-exec'',
            SetAttribute 2 ''component'' (AString ''database/sql''),
            SetAttribute 2 ''query'' (AString []),
            SetAttribute 2 ''args'' (APrettyValues [VInt64 7]),
            Native (N_Stmt_Exec [VInt64 7]) None,
            SpanEnd 2,
            SpanEnd 1],
         next_span := 3\<rparr>) \<and>
   span_starts (new_events w_prepared
      (snd (wrappedStmt_ExecContext prepared_stmt background [positional (VInt64 7) 1]
              w_prepared))) = 2 \<and>
   span_ends (new_events w_prepared
      (snd (wrappedStmt_ExecContext prepared_stmt background [positional (VInt64 7) 1]
              w_prepared))) = 2"
  unfolding prepared_stmt_ExecContext_run
  by (simp add: span_starts_def span_ends_def)

section \<open>Cancellation on the fallback path\<close>

lemma Stmt_ExecContext_ignores_supplied_context:
  "wrappedStmt_ExecContext s ctx args w = wrappedStmt_ExecContext s ctx' args w"
  by (simp add: wrappedStmt_ExecContext_def)

lemma Stmt_QueryContext_ignores_supplied_context:
  "wrappedStmt_QueryContext s ctx args w = wrappedStmt_QueryContext s ctx' args w"
  by (simp add: wrappedStmt_QueryContext_def)

text \<open>
  Two calls with a cancelled context that do not return its error. On the connection,
  a named argument is rejected before the context is looked at, so the error returned is
  the named-parameter error. On the statement, the context looked at is the one the
  tracer returned for the statement's own context, which is live here, so the native
  \<open>Exec\<close> is called and the store changes.
\<close>

theorem cancelled_context_counterexample:
  "ctx_err cancelled = Some Canceled \<and>
   conn_ExecContext (c_parent traced_conn) = None \<and>
   fst (wrappedConn_ExecContext traced_conn cancelled ''UPDATE t SET a = :a''
          [named_arg ''a'' (VString ''x'') 1] w0) =
     Returns (Inl (ErrorsNew ''sql: driver does not support the use of Named Parameters'')) \<and>
   fst (wrappedConn_ExecContext traced_conn cancelled ''UPDATE t SET a = :a''
          [named_arg ''a'' (VString ''x'') 1] w0) \<noteq> Returns (Inl Canceled) \<and>
   stmt_ExecContext (s_parent prepared_stmt) = None \<and>
   fst (wrappedStmt_ExecContext prepared_stmt cancelled [positional (VInt64 7) 1] w_prepared) =
     Returns (Inr \<lparr>r_tracer = Tracer ''t'', r_ctx = Some (background\<lparr>ctx_span := Some 0\<rparr>),
                  r_parent = mock_result\<rparr>) \<and>
   native_calls (new_events w_prepared
      (snd (wrappedStmt_ExecContext prepared_stmt cancelled [positional (VInt64 7) 1]
              w_prepared))) =
     [Native (N_Stmt_Exec [VInt64 7]) None] \<and>
   store (snd (wrappedStmt_ExecContext prepared_stmt cancelled [positional (VInt64 7) 1]
                 w_prepared)) =
     [''INSERT INTO t VALUES (?)'']"
proof -
  have m: "namedValueToValue [named_arg ''a'' (VString ''x'') 1] =
             Inl (ErrorsNew ''sql: driver does not support the use of Named Parameters'')"
    by (simp add: namedValueToValue_def named_arg_def)
  have c: "conn_ExecContext (c_parent traced_conn) = None"
    by (simp add: traced_conn_def mock_conn_def)
  have s: "stmt_ExecContext (s_parent prepared_stmt) = None"
    by (simp add: prepared_stmt_def mock_stmt_def)
  have 1: "fst (wrappedConn_ExecContext traced_conn cancelled ''UPDATE t SET a = :a''
          [named_arg ''a'' (VString ''x'') 1] w0) =
     Returns (Inl (ErrorsNew ''sql: driver does not support the use of Named Parameters''))"
    by (simp add: conn_ExecContext_fallback_conversion_error [OF c m])
  show ?thesis
    unfolding prepared_stmt_ExecContext_run using 1 c s
    by (simp add: cancelled_def native_calls_def)
qed

text \<open>
  C3, as the code has it. For \<open>ExecContext\<close> and \<open>QueryContext\<close> of the connection, when
  the wrapped connection lacks the context-aware interface and every argument is
  unnamed: if the context supplied is already cancelled, the call returns the context's
  error, calls no native method and leaves the store unchanged.
\<close>

theorem conn_fallback_cancelled:
  "(conn_ExecContext (c_parent c) = None \<and> (\<forall>a\<in>set args. nv_Name a = []) \<and>
    ctx_err ctx = Some e \<longrightarrow>
      fst (wrappedConn_ExecContext c ctx q args w) = Returns (Inl e) \<and>
      native_calls (new_events w (snd (wrappedConn_ExecContext c ctx q args w))) = [] \<and>
      store (snd (wrappedConn_ExecContext c ctx q args w)) = store w) \<and>
   (conn_QueryContext (c_parent c) = None \<and> (\<forall>a\<in>set args. nv_Name a = []) \<and>
    ctx_err ctx = Some e \<longrightarrow>
      fst (wrappedConn_QueryContext c ctx q args w) = Returns (Inl e) \<and>
      native_calls (new_events w (snd (wrappedConn_QueryContext c ctx q args w))) = [] \<and>
      store (snd (wrappedConn_QueryContext c ctx q args w)) = store w)"
proof (intro conjI impI)
  assume h: "conn_ExecContext (c_parent c) = None \<and> (\<forall>a\<in>set args. nv_Name a = []) \<and>
    ctx_err ctx = Some e"
  then have n: "namedValueToValue args = Inr (map nv_Value args)"
    by (simp add: namedValueToValue_unnamed)
  from h have a: "conn_ExecContext (c_parent c) = None" and b: "ctx_err ctx = Some e"
    by simp_all
  note r = conn_ExecContext_fallback_cancelled [OF a n b, of q w]
  show "fst (wrappedConn_ExecContext c ctx q args w) = Returns (Inl e)" by (simp add: r)
  show "native_calls (new_events w (snd (wrappedConn_ExecContext c ctx q args w))) = []"
    by (simp add: r)
  show "store (snd (wrappedConn_ExecContext c ctx q args w)) = store w" by (simp add: r)
next
  assume h: "conn_QueryContext (c_parent c) = None \<and> (\<forall>a\<in>set args. nv_Name a = []) \<and>
    ctx_err ctx = Some e"
  then have n: "namedValueToValue args = Inr (map nv_Value args)"
    by (simp add: namedValueToValue_unnamed)
  from h have a: "conn_QueryContext (c_parent c) = None" and b: "ctx_err ctx = Some e"
    by simp_all
  note r = conn_QueryContext_fallback_cancelled [OF a n b, of q w]
  show "fst (wrappedConn_QueryContext c ctx q args w) = Returns (Inl e)" by (simp add: r)
  show "native_calls (new_events w (snd (wrappedConn_QueryContext c ctx q args w))) = []"
    by (simp add: r)
  show "store (snd (wrappedConn_QueryContext c ctx q args w)) = store w" by (simp add: r)
qed

theorem conn_fallback_cancelled_witness:
  "fst (wrappedConn_ExecContext traced_conn cancelled ''DELETE FROM t WHERE id = ?''
          [positional (VInt64 7) 1] w0) = Returns (Inl Canceled) \<and>
   native_calls (new_events w0
      (snd (wrappedConn_ExecContext traced_conn cancelled ''DELETE FROM t WHERE id = ?''
              [positional (VInt64 7) 1] w0))) = [] \<and>
   fst (wrappedConn_QueryContext traced_conn cancelled ''SELECT 1'' [] w0) =
     Returns (Inl Canceled)"
proof -
  have c: "conn_ExecContext (c_parent traced_conn) = None"
      "conn_QueryContext (c_parent traced_conn) = None"
    by (simp_all add: traced_conn_def mock_conn_def)
  have p: "\<forall>a\<in>set [positional (VInt64 7) 1]. nv_Name a = []" by (simp add: positional_def)
  have e: "ctx_err cancelled = Some Canceled" by (simp add: cancelled_def)
  show ?thesis
    using conn_fallback_cancelled
            [where c = traced_conn and ctx = cancelled and e = Canceled and w = w0
               and q = "''DELETE FROM t WHERE id = ?''" and args = "[positional (VInt64 7) 1]"]
          conn_fallback_cancelled
            [where c = traced_conn and ctx = cancelled and e = Canceled and w = w0
               and q = "''SELECT 1''" and args = "[]"]
          c p e
    by simp
qed

section \<open>The wrapped sequence against the direct one\<close>

lemma Stmt_Exec_nil_context:
  "s_ctx s = None \<Longrightarrow> wrappedStmt_Exec s args w = (Panics, w)"
  by (simp add: wrappedStmt_Exec_def nil_context_panics)

text \<open>
  By the methods without a context, whatever the native driver: once prepare has
  succeeded, the statement carries no context and exec panics, before the native \<open>Exec\<close>.
\<close>

lemma wrapped_sequence_stops_at_exec:
  "wrapped_sequence d name q args w =
     (case wrappedDriver_Open d name w of
        (Inl err, wa) \<Rightarrow> (Returns \<lparr>step_errors = [Some err], exec_result = None\<rparr>, wa)
      | (Inr conn, wa) \<Rightarrow>
          (case wrappedConn_Prepare conn q wa of
             (Inl err, wb) \<Rightarrow>
               (Returns \<lparr>step_errors = [None, Some err], exec_result = None\<rparr>, wb)
           | (Inr stmt, wb) \<Rightarrow> (Panics, wb)))"
proof -
  obtain ro wa where o: "wrappedDriver_Open d name w = (ro, wa)"
    by (cases "wrappedDriver_Open d name w")
  show ?thesis
  proof (cases ro)
    case (Inl err)
    with o show ?thesis by (simp add: wrapped_sequence_def)
  next
    case (Inr conn)
    obtain rp wb where p: "wrappedConn_Prepare conn q wa = (rp, wb)"
      by (cases "wrappedConn_Prepare conn q wa")
    show ?thesis
    proof (cases rp)
      case (Inl err)
      with o p Inr show ?thesis by (simp add: wrapped_sequence_def)
    next
      case st: (Inr stmt)
      with p have "s_ctx stmt = None" by (simp add: Prepare_leaves_context_nil)
      then have "wrappedStmt_Exec stmt args wb = (Panics, wb)" by (rule Stmt_Exec_nil_context)
      with o p Inr st show ?thesis by (simp add: wrapped_sequence_def)
    qed
  qed
qed

text \<open>
  On a driver whose connections implement \<open>driver.ConnPrepareContext\<close> the statement
  carries a context and the sequence by the context methods runs to its end.
\<close>

lemma wrapped_sequence_ctx_on_aware_driver:
  "wrapped_sequence_ctx traced_driver_ctx ''dsn'' background ''INSERT INTO t VALUES (?)''
     [positional (VInt64 7) 1] w0 =
     (Returns \<lparr>step_errors = [None, None, None, None, None], exec_result = Some mock_result\<rparr>,
      \<lparr>store = [''INSERT INTO t VALUES (?)''],
       events =
         [Native (N_Open ''dsn'') None,
          SpanStart (Tracer ''t'') 0 (Some background) ''sql-prepare'',
          SetAttribute 0 ''component'' (AString ''database/sql''),
          SetAttribute 0 ''query'' (AString ''INSERT INTO t VALUES (?)''),
          Native (N_Conn_PrepareContext (background\<lparr>ctx_span := Some 0\<rparr>)
                    ''INSERT INTO t VALUES (?)'') None,
          SpanEnd 0,
          SpanStart (Tracer ''t'') 1 (Some (background\<lparr>ctx_span := Some 0\<rparr>)) ''sql-stmt-exec'',
          SetAttribute 1 ''component'' (AString ''database/sql''),
          SetAttribute 1 ''query'' (AString []),
          SetAttribute 1 ''args'' (APrettyNamed [positional (VInt64 7) 1]),
          SpanStart (Tracer ''t'') 2 (Some (background\<lparr>ctx_span := Some 0\<rparr>)) ''sql-stmt-exec'',
          SetAttribute 2 ''component'' (AString ''database/sql''),
          SetAttribute 2 ''query'' (AString []),
          SetAttribute 2 ''args'' (APrettyValues [VInt64 7]),
          Native (N_Stmt_Exec [VInt64 7]) None,
          SpanEnd 2,
          SpanEnd 1,
          SpanStart (Tracer ''t'') 3 (Some (background\<lparr>ctx_span := Some 0\<rparr>)) ''sql-stmt-close'',
          SetAttribute 3 ''component'' (AString ''database/sql''),
          Native N_Stmt_Close None,
          SpanEnd 3,
          Native N_Conn_Close None],
       next_span = 4\<rparr>)"
proof -
  have n: "namedValueToValue [positional (VInt64 7) 1] = Inr [VInt64 7]"
    by (simp add: namedValueToValue_def positional_def)
  show ?thesis
    by (simp add: wrapped_sequence_ctx_def wrappedDriver_Open_def wrappedConn_PrepareContext_def
        wrappedStmt_ExecContext_def wrappedStmt_Exec_def wrappedStmt_Close_def
        wrappedConn_Close_def frame_defs n traced_driver_ctx_def mock_driver_ctx_def
        mock_conn_ctx_def mock_stmt_def background_def w0_def sum_err_def Let_def)
qed

text \<open>
  C4. The claim asks that open, prepare, exec, close through the facades call the same
  native methods and leave the same store as the same steps directly against the
  wrapped driver. On a driver whose connections do not implement
  \<open>driver.ConnPrepareContext\<close>, the statement is built by \<open>Prepare\<close> without a context,
  by the context methods as well as by the legacy ones, and exec hands the nil context
  to \<open>tracer.Start\<close>, which panics: the native \<open>Exec\<close> is never called and the store
  stays empty, where the direct sequence executes the statement. Run on the mock driver.
\<close>

theorem wrapped_sequence_panics_on_legacy_driver:
  "wrapped_sequence_ctx traced_driver ''dsn'' background ''INSERT INTO t VALUES (?)''
     [positional (VInt64 7) 1] w0 =
     (Panics,
      \<lparr>store = [],
       events =
         [Native (N_Open ''dsn'') None,
          SpanStart (Tracer ''t'') 0 (Some background) ''sql-prepare'',
          SetAttribute 0 ''component'' (AString ''database/sql''),
          SetAttribute 0 ''query'' (AString ''INSERT INTO t VALUES (?)''),
          Native (N_Conn_Prepare ''INSERT INTO t VALUES (?)'') None,
          SpanEnd 0],
       next_span = Suc 0\<rparr>) \<and>
   wrapped_sequence traced_driver ''dsn'' ''INSERT INTO t VALUES (?)'' [VInt64 7] w0 =
     (Panics,
      \<lparr>store = [],
       events = [Native (N_Open ''dsn'') None,
                 Native (N_Conn_Prepare ''INSERT INTO t VALUES (?)'') None],
       next_span = 0\<rparr>) \<and>
   direct_sequence mock_driver ''dsn'' ''INSERT INTO t VALUES (?)'' [VInt64 7] w0 =
     (\<lparr>step_errors = [None, None, None, None, None], exec_result = Some mock_result\<rparr>,
      \<lparr>store = [''INSERT INTO t VALUES (?)''],
       events = [Native (N_Open ''dsn'') None,
                 Native (N_Conn_Prepare ''INSERT INTO t VALUES (?)'') None,
                 Native (N_Stmt_Exec [VInt64 7]) None,
                 Native N_Stmt_Close None,
                 Native N_Conn_Close None],
       next_span = 0\<rparr>)"
proof (intro conjI)
  show "wrapped_sequence_ctx traced_driver ''dsn'' background ''INSERT INTO t VALUES (?)''
     [positional (VInt64 7) 1] w0 =
     (Panics,
      \<lparr>store = [],
       events =
         [Native (N_Open ''dsn'') None,
          SpanStart (Tracer ''t'') 0 (Some background) ''sql-prepare'',
          SetAttribute 0 ''component'' (AString ''database/sql''),
          SetAttribute 0 ''query'' (AString ''INSERT INTO t VALUES (?)''),
          Native (N_Conn_Prepare ''INSERT INTO t VALUES (?)'') None,
          SpanEnd 0],
       next_span = Suc 0\<rparr>)"
    by (simp add: wrapped_sequence_ctx_def wrappedDriver_Open_def wrappedConn_PrepareContext_def
        wrappedConn_Prepare_def wrappedStmt_ExecContext_def frame_defs traced_driver_def
        mock_driver_def mock_conn_def mock_stmt_def w0_def sum_err_def Let_def)
  show "wrapped_sequence traced_driver ''dsn'' ''INSERT INTO t VALUES (?)'' [VInt64 7] w0 =
     (Panics,
      \<lparr>store = [],
       events = [Native (N_Open ''dsn'') None,
                 Native (N_Conn_Prepare ''INSERT INTO t VALUES (?)'') None],
       next_span = 0\<rparr>)"
    by (simp add: wrapped_sequence_def wrappedDriver_Open_def wrappedConn_Prepare_def
        wrappedStmt_Exec_def frame_defs traced_driver_def mock_driver_def mock_conn_def
        mock_stmt_def w0_def sum_err_def Let_def)
  show "direct_sequence mock_driver ''dsn'' ''INSERT INTO t VALUES (?)'' [VInt64 7] w0 =
     (\<lparr>step_errors = [None, None, None, None, None], exec_result = Some mock_result\<rparr>,
      \<lparr>store = [''INSERT INTO t VALUES (?)''],
       events = [Native (N_Open ''dsn'') None,
                 Native (N_Conn_Prepare ''INSERT INTO t VALUES (?)'') None,
                 Native (N_Stmt_Exec [VInt64 7]) None,
                 Native N_Stmt_Close None,
                 Native N_Conn_Close None],
       next_span = 0\<rparr>)"
    by (simp add: direct_sequence_def native_call_def mock_driver_def mock_conn_def
        mock_stmt_def w0_def sum_err_def)
qed

end
